theory Spec2Isabelle
  imports Complex_Main
begin

section \<open>Data model\<close>

text \<open>
  The embedding follows \<open>electron/main/copyTrader.ts\<close> (\<open>CopyTraderService\<close>), the
  \<open>GammaClient\<close> and the \<open>PolymarketClient\<close> of the Electron main process, the
  \<open>copytrader:start\<close> IPC handler and the configuration setters of
  \<open>HighPerformanceCopyTrader\<close>.

  A thrown value is a \<open>js_error\<close>: the class of the error object together with its
  \<open>message\<close>. A promise that rejects is a result \<open>Inl err\<close>, one that resolves with \<open>v\<close>
  is \<open>Inr v\<close>.
\<close>

datatype js_error = Error string | TypeError string | AxiosError string

fun message :: "js_error \<Rightarrow> string" where
  "message (Error m) = m"
| "message (TypeError m) = m"
| "message (AxiosError m) = m"

text \<open>A value parsed from a response body. An object is the list of its bindings.\<close>

datatype json =
    JNull
  | JBool bool
  | JNum real
  | JStr string
  | JArr "json list"
  | JObj "(string \<times> json) list"

text \<open>
  \<open>x?.k\<close> for the keys read here (\<open>fills\<close>, \<open>trades\<close>, \<open>hash\<close>, \<open>transactionHash\<close>,
  \<open>orderId\<close>): \<open>None\<close> is \<open>undefined\<close>. Only a parsed object has such a property.
\<close>

fun optProp :: "json \<Rightarrow> string \<Rightarrow> json option" where
  "optProp (JObj kvs) k = map_of kvs k"
| "optProp v k = None"

text \<open>\<open>x1 ?? x2 ?? ... ?? d\<close>: the first operand that is neither \<open>undefined\<close> nor \<open>null\<close>.\<close>

fun coalesce :: "json option list \<Rightarrow> json \<Rightarrow> json" where
  "coalesce [] d = d"
| "coalesce (None # xs) d = coalesce xs d"
| "coalesce (Some JNull # xs) d = coalesce xs d"
| "coalesce (Some v # xs) d = v"

text \<open>
  A JavaScript number that the scheduler computes with or hands on (a size, a price, the
  copy factor, a timestamp): the value of a finite double, \<open>NaN\<close> or an infinity. The
  runtime's product of two numbers, which rounds, is not computed here: it is a parameter
  of the model (\<open>times\<close>), as is its conversion of a number to a string (\<open>fmt\<close>). The
  settings that are only divided by a constant or passed to a timer (\<open>maxSlippageBps\<close>,
  \<open>pollIntervalMs\<close>) and the numbers of a request are kept as reals.
\<close>

datatype number = Num real | NaN | PlusInfinity | MinusInfinity

text \<open>\<open>Math.max(x, y)\<close> on two numbers.\<close>

fun mathMax :: "number \<Rightarrow> number \<Rightarrow> number" where
  "mathMax NaN y = NaN"
| "mathMax x NaN = NaN"
| "mathMax PlusInfinity y = PlusInfinity"
| "mathMax x PlusInfinity = PlusInfinity"
| "mathMax MinusInfinity y = y"
| "mathMax x MinusInfinity = x"
| "mathMax (Num x) (Num y) = Num (max x y)"

datatype side = Buy | Sell

datatype execution_mode = Percent | Fixed

text \<open>\<open>interface GammaFill\<close>; the fields carry the prefix \<open>fill_\<close>.\<close>

record GammaFill =
  fill_id :: string
  fill_marketId :: string
  fill_outcomeId :: string
  fill_side :: side
  fill_price :: number
  fill_size :: number
  fill_timestamp :: number
  fill_txHash :: "string option"
  fill_outcomeIndex :: "real option"

text \<open>\<open>interface MirrorOrderRequest\<close>; the fields carry the prefix \<open>order_\<close>.\<close>

record MirrorOrderRequest =
  order_marketId :: string
  order_outcomeId :: string
  order_side :: side
  order_price :: number
  order_size :: number
  order_outcomeIndex :: "real option"

text \<open>\<open>interface CopySettings\<close>.\<close>

record CopySettings =
  gammaBaseUrl :: string
  rpcUrl :: string
  targetAddresses :: "string list"
  copyFactor :: number
  maxSlippageBps :: real
  dryRun :: bool
  pollIntervalMs :: real
  executionMode :: execution_mode
  fixedSize :: number
  sellAllOnSell :: bool

section \<open>Sizing (\<open>CopyTraderService.tick\<close>, the two \<open>const\<close> lines of the submission loop)\<close>

text \<open>
  \<^verbatim>\<open>const baseSize = this.settings.executionMode === 'fixed'
     ? this.settings.fixedSize : (f.size * this.settings.copyFactor)\<close>
  \<open>mul\<close> is the runtime's \<open>*\<close> on two numbers.
\<close>

definition baseSize :: "(number \<Rightarrow> number \<Rightarrow> number) \<Rightarrow> CopySettings \<Rightarrow> GammaFill \<Rightarrow> number" where
  "baseSize mul s f =
     (if executionMode s = Fixed then fixedSize s else mul (fill_size f) (copyFactor s))"

text \<open>
  \<^verbatim>\<open>const size = f.side === 'sell' && this.settings.sellAllOnSell ? 1 : baseSize\<close>
\<close>

definition mirrorSize :: "(number \<Rightarrow> number \<Rightarrow> number) \<Rightarrow> CopySettings \<Rightarrow> GammaFill \<Rightarrow> number" where
  "mirrorSize mul s f =
     (if fill_side f = Sell \<and> sellAllOnSell s then Num 1 else baseSize mul s f)"

text \<open>The object literal passed to \<open>this.mk.mirrorOrder\<close>; \<open>outcomeIndex\<close> is not set.\<close>

definition mirrorRequest ::
  "(number \<Rightarrow> number \<Rightarrow> number) \<Rightarrow> CopySettings \<Rightarrow> GammaFill \<Rightarrow> MirrorOrderRequest"
where
  "mirrorRequest mul s f =
     \<lparr> order_marketId = fill_marketId f,
       order_outcomeId = fill_outcomeId f,
       order_side = fill_side f,
       order_price = fill_price f,
       order_size = mirrorSize mul s f,
       order_outcomeIndex = None \<rparr>"

section \<open>Scheduler state and observable effects\<close>

text \<open>
  The mutable fields of \<open>class CopyTraderService\<close>. \<open>intervalId\<close> holds the handle that
  \<open>setInterval\<close> returned. \<open>lastTimestampMsByAddress\<close> is a plain object (\<open>{}\<close>) used as a
  dictionary: the field holds its own properties, and what a read finds for a key that is
  not among them comes from \<open>Object.prototype\<close> (see \<open>getTimestamp\<close>).
  \<open>seenFillIdsByAddress\<close> is a \<open>Map\<close> from an address to its \<open>Set\<close> of ids.
\<close>

record CopyTraderService =
  running :: bool
  intervalId :: "nat option"
  lastTimestampMsByAddress :: "string \<rightharpoonup> number"
  seenFillIdsByAddress :: "string \<rightharpoonup> string set"

definition newService :: CopyTraderService where
  "newService =
     \<lparr> running = False, intervalId = None,
       lastTimestampMsByAddress = Map.empty, seenFillIdsByAddress = Map.empty \<rparr>"

text \<open>
  What an expression of the scheduler can evaluate to where a number is expected: a
  number, or a function or object that a plain object inherits from \<open>Object.prototype\<close>.
  \<open>toNumber\<close> is the conversion that \<open>Math.max\<close> applies to its arguments: a function and
  \<open>Object.prototype\<close> itself both convert to \<open>NaN\<close>.
\<close>

datatype js_value = Numeric number | Inherited

fun toNumber :: "js_value \<Rightarrow> number" where
  "toNumber (Numeric n) = n"
| "toNumber Inherited = NaN"

text \<open>
  What the service does to the outside, in the order it does it. A message sent with
  \<open>this.log\<close> is kept as the statement that built it together with the values the template
  interpolates (\<open>address.slice(0, 6)\<close> is \<open>take 6 address\<close>); \<open>reportError\<close> sends the
  error's message. \<open>Submit a f req\<close> is the call \<open>this.mk.mirrorOrder(req)\<close> made in the
  iteration for the aggregated entry \<open>{fill: f, address: a}\<close>.
\<close>

datatype log_message =
    Started nat
  | Stopped
  | Checking string js_value
  | Found nat string
  | NoNewTrades
  | Simulated string side number number
  | Mirrored string side number number string string json

datatype effect =
    Log log_message
  | ReportError string
  | FetchCall string js_value
  | EnsureApprovals
  | Submit string GammaFill MirrorOrderRequest
  | SetInterval nat real
  | ClearInterval nat
  | InvokeTick

text \<open>
  The collaborators of one tick. \<open>gamma_fetch k a since\<close> is the outcome of the \<open>k\<close>-th call
  \<open>this.gamma.fetchFillsByAddress(a, since)\<close> of the tick, \<open>mk_approve\<close> the outcome of
  \<open>this.mk.ensureApprovals()\<close> (\<open>Some err\<close> when it rejects), \<open>mk_mirror k req\<close> the outcome
  of the \<open>k\<close>-th call \<open>this.mk.mirrorOrder(req)\<close>, and \<open>times\<close> the runtime's product of two
  numbers.
\<close>

record tick_env =
  gamma_fetch :: "nat \<Rightarrow> string \<Rightarrow> js_value \<Rightarrow> js_error + GammaFill list"
  mk_approve :: "js_error option"
  mk_mirror :: "nat \<Rightarrow> MirrorOrderRequest \<Rightarrow> js_error + json"
  times :: "number \<Rightarrow> number \<Rightarrow> number"

section \<open>\<open>CopyTraderService.tick\<close>\<close>

text \<open>
  The names of the properties of \<open>Object.prototype\<close> in the runtime (ECMAScript with its
  Annex B): every one is a function, but \<open>__proto__\<close>, an accessor.
\<close>

definition objectPrototypeKeys :: "string list" where
  "objectPrototypeKeys =
     [''constructor'', ''__defineGetter__'', ''__defineSetter__'', ''hasOwnProperty'',
      ''__lookupGetter__'', ''__lookupSetter__'', ''isPrototypeOf'', ''propertyIsEnumerable'',
      ''toString'', ''valueOf'', ''__proto__'', ''toLocaleString'']"

text \<open>
  \<^verbatim>\<open>this.lastTimestampMsByAddress[address]\<close>, with \<open>None\<close> for \<open>undefined\<close>: the object's own
  property if it has one of that name, else the property of that name of
  \<open>Object.prototype\<close>, else \<open>undefined\<close>. The key \<open>__proto__\<close> is never an own property:
  reading it calls the getter, which returns \<open>Object.prototype\<close>.
\<close>

definition getTimestamp :: "CopyTraderService \<Rightarrow> string \<Rightarrow> js_value option" where
  "getTimestamp st a =
     (if a = ''__proto__'' then Some Inherited
      else case lastTimestampMsByAddress st a of
             Some n \<Rightarrow> Some (Numeric n)
           | None \<Rightarrow> if a \<in> set objectPrototypeKeys then Some Inherited else None)"

text \<open>
  \<^verbatim>\<open>this.lastTimestampMsByAddress[address] = n\<close> for a number \<open>n\<close>: the assignment creates
  or overwrites the own property, but for the key \<open>__proto__\<close>, whose setter ignores a
  value that is neither an object nor \<open>null\<close>.
\<close>

definition setTimestamp :: "string \<Rightarrow> number \<Rightarrow> CopyTraderService \<Rightarrow> CopyTraderService" where
  "setTimestamp a n st =
     (if a = ''__proto__'' then st
      else st\<lparr>lastTimestampMsByAddress := (lastTimestampMsByAddress st)(a \<mapsto> n)\<rparr>)"

text \<open>\<^verbatim>\<open>this.lastTimestampMsByAddress[address] ?? 0\<close>\<close>

definition lastTimestampMs :: "CopyTraderService \<Rightarrow> string \<Rightarrow> js_value" where
  "lastTimestampMs st a = (case getTimestamp st a of None \<Rightarrow> Numeric (Num 0) | Some v \<Rightarrow> v)"

text \<open>\<^verbatim>\<open>this.seenFillIdsByAddress.get(address) ?? new Set<string>()\<close>\<close>

definition seenFillIds :: "CopyTraderService \<Rightarrow> string \<Rightarrow> string set" where
  "seenFillIds st a = (case seenFillIdsByAddress st a of None \<Rightarrow> {} | Some ids \<Rightarrow> ids)"

text \<open>
  The body of \<open>for (const f of fills)\<close>: the updated service and the entries pushed onto
  \<open>aggregated\<close> (none or one).
  \<^verbatim>\<open>
  if (!seen.has(f.id)) { seen.add(f.id); aggregated.push({ fill: f, address }) }
  this.lastTimestampMsByAddress[address] =
    Math.max(this.lastTimestampMsByAddress[address] ?? 0, f.timestamp)\<close>
\<close>

definition processFill ::
  "string \<Rightarrow> GammaFill \<Rightarrow> CopyTraderService \<Rightarrow> CopyTraderService \<times> (GammaFill \<times> string) list"
where
  "processFill a f st =
     (let (st1, pushed) =
            (if fill_id f \<notin> seenFillIds st a
             then (st\<lparr>seenFillIdsByAddress :=
                        (seenFillIdsByAddress st)(a \<mapsto> insert (fill_id f) (seenFillIds st a))\<rparr>,
                   [(f, a)])
             else (st, []))
      in (setTimestamp a (mathMax (toNumber (lastTimestampMs st1 a)) (fill_timestamp f)) st1,
          pushed))"

fun processFills ::
  "string \<Rightarrow> GammaFill list \<Rightarrow> CopyTraderService \<Rightarrow> CopyTraderService \<times> (GammaFill \<times> string) list"
where
  "processFills a [] st = (st, [])"
| "processFills a (f # fs) st =
     (let (st1, pushed1) = processFill a f st;
          (st2, pushed2) = processFills a fs st1
      in (st2, pushed1 @ pushed2))"

text \<open>
  The loop \<open>for (const address of this.settings.targetAddresses)\<close>, from the \<open>k\<close>-th fetch
  of the tick on: the updated service, the entries pushed onto \<open>aggregated\<close> and the effects.
  A fetch that throws is reported and the loop goes on with the next address (\<open>continue\<close>).
\<close>

fun pollAddresses ::
  "tick_env \<Rightarrow> nat \<Rightarrow> string list \<Rightarrow> CopyTraderService \<Rightarrow>
     CopyTraderService \<times> (GammaFill \<times> string) list \<times> effect list"
where
  "pollAddresses env k [] st = (st, [], [])"
| "pollAddresses env k (a # as) st =
     (let since = lastTimestampMs st a;
          st1 = st\<lparr>seenFillIdsByAddress := (seenFillIdsByAddress st)(a \<mapsto> seenFillIds st a)\<rparr>;
          begun = [Log (Checking (take 6 a) since), FetchCall a since]
      in case gamma_fetch env k a since of
           Inl err \<Rightarrow>
             (let (st', agg, effs) = pollAddresses env (Suc k) as st1
              in (st', agg, begun @ [ReportError (message err)] @ effs))
         | Inr fills \<Rightarrow>
             (let (st2, pushed) = processFills a fills st1;
                  (st', agg, effs) = pollAddresses env (Suc k) as st2
              in (st', pushed @ agg, begun @ [Log (Found (length fills) (take 6 a))] @ effs)))"

text \<open>
  The loop \<open>for (const { fill: f, address } of aggregated)\<close>, from the \<open>k\<close>-th submission
  on. There is no \<open>try\<close> around \<open>await this.mk.mirrorOrder(...)\<close>: when it rejects, the loop
  is left and \<open>tick\<close> rejects with that error (\<open>Some err\<close>).
\<close>

fun submitAll ::
  "CopySettings \<Rightarrow> tick_env \<Rightarrow> nat \<Rightarrow> (GammaFill \<times> string) list \<Rightarrow> effect list \<times> js_error option"
where
  "submitAll s env k [] = ([], None)"
| "submitAll s env k ((f, a) # rest) =
     (let req = mirrorRequest (times env) s f
      in case mk_mirror env k req of
           Inl err \<Rightarrow> ([Submit a f req], Some err)
         | Inr txHash \<Rightarrow>
             (let said =
                    (if txHash = JStr ''skipped:client-unavailable''
                     then Log (Simulated (take 6 a) (fill_side f) (order_size req) (fill_price f))
                     else Log (Mirrored (take 6 a) (fill_side f) (order_size req) (fill_price f)
                                 (fill_marketId f) (fill_outcomeId f)
                                 (coalesce [Some txHash] (JStr ''ok''))));
                  (effs, res) = submitAll s env (Suc k) rest
              in (Submit a f req # said # effs, res)))"

definition tick ::
  "CopySettings \<Rightarrow> tick_env \<Rightarrow> CopyTraderService \<Rightarrow>
     CopyTraderService \<times> effect list \<times> js_error option"
where
  "tick s env st =
     (if \<not> running st then (st, [], None)
      else
        let (st1, aggregated, effs1) = pollAddresses env 0 (targetAddresses s) st
        in if length aggregated = 0 then (st1, effs1 @ [Log NoNewTrades], None)
           else case mk_approve env of
                  Some err \<Rightarrow> (st1, effs1 @ [EnsureApprovals], Some err)
                | None \<Rightarrow>
                    (let (effs2, res) = submitAll s env 0 aggregated
                     in (st1, effs1 @ [EnsureApprovals] @ effs2, res)))"

text \<open>
  Both callers of \<open>tick\<close> (the timer callback and \<open>start\<close>) attach the same handler:
  \<^verbatim>\<open>this.tick().catch(err => this.reportError(err))\<close>
\<close>

definition runTick ::
  "CopySettings \<Rightarrow> tick_env \<Rightarrow> CopyTraderService \<Rightarrow> CopyTraderService \<times> effect list"
where
  "runTick s env st =
     (case tick s env st of
        (st', effs, None) \<Rightarrow> (st', effs)
      | (st', effs, Some err) \<Rightarrow> (st', effs @ [ReportError (message err)]))"

text \<open>A session: the ticks of one service, each run to its end before the next begins.\<close>

fun runTicks ::
  "CopySettings \<Rightarrow> tick_env list \<Rightarrow> CopyTraderService \<Rightarrow> CopyTraderService \<times> effect list"
where
  "runTicks s [] st = (st, [])"
| "runTicks s (env # envs) st =
     (let (st1, effs1) = runTick s env st;
          (st2, effs2) = runTicks s envs st1
      in (st2, effs1 @ effs2))"

text \<open>The submissions among some effects, as pairs of the address and the fill's id.\<close>

fun submitted :: "effect list \<Rightarrow> (string \<times> string) list" where
  "submitted [] = []"
| "submitted (Submit a f req # effs) = (a, fill_id f) # submitted effs"
| "submitted (e # effs) = submitted effs"

text \<open>The fetches among some effects, as pairs of the address and the \<open>since\<close> passed.\<close>

fun fetchCalls :: "effect list \<Rightarrow> (string \<times> js_value) list" where
  "fetchCalls [] = []"
| "fetchCalls (FetchCall a since # effs) = (a, since) # fetchCalls effs"
| "fetchCalls (e # effs) = fetchCalls effs"

text \<open>The periods of the timers armed and the number of calls of \<open>tick\<close> among some effects.\<close>

fun timersArmed :: "effect list \<Rightarrow> real list" where
  "timersArmed [] = []"
| "timersArmed (SetInterval h period # effs) = period # timersArmed effs"
| "timersArmed (e # effs) = timersArmed effs"

fun ticksInvoked :: "effect list \<Rightarrow> nat" where
  "ticksInvoked [] = 0"
| "ticksInvoked (InvokeTick # effs) = Suc (ticksInvoked effs)"
| "ticksInvoked (e # effs) = ticksInvoked effs"

fun isSimulated :: "effect \<Rightarrow> bool" where
  "isSimulated (Log (Simulated a sd sz p)) = True"
| "isSimulated e = False"

section \<open>\<open>CopyTraderService.start\<close> and \<open>stop\<close>\<close>

text \<open>
  \<open>start\<close> returns before the tick it calls has finished (the promise is not awaited), so
  the call \<open>this.tick()\<close> is the effect \<open>InvokeTick\<close>; \<open>h\<close> is the handle that \<open>setInterval\<close>
  returns.
\<close>

definition start :: "CopySettings \<Rightarrow> nat \<Rightarrow> CopyTraderService \<Rightarrow> CopyTraderService \<times> effect list" where
  "start s h st =
     (if running st then (st, [])
      else (st\<lparr>running := True, intervalId := Some h\<rparr>,
            [SetInterval h (pollIntervalMs s),
             Log (Started (length (targetAddresses s))),
             InvokeTick]))"

definition stop :: "CopyTraderService \<Rightarrow> CopyTraderService \<times> effect list" where
  "stop st =
     (st\<lparr>running := False, intervalId := None\<rparr>,
      (case intervalId st of Some h \<Rightarrow> [ClearInterval h] | None \<Rightarrow> []) @ [Log Stopped])"

section \<open>\<open>GammaClient.fetchFillsByAddress\<close>\<close>

record GammaClient =
  baseUrl :: string
  apiKey :: "string option"

text \<open>\<open>s.replace(/\/$/, '')\<close>\<close>

definition stripTrailingSlash :: "string \<Rightarrow> string" where
  "stripTrailingSlash u = (if u \<noteq> [] \<and> last u = CHR ''/'' then butlast u else u)"

definition newGammaClient :: "string \<Rightarrow> string option \<Rightarrow> GammaClient" where
  "newGammaClient url key = \<lparr> baseUrl = stripTrailingSlash url, apiKey = key \<rparr>"

text \<open>One candidate of \<open>attempts\<close>: the URL, the query parameters and the extractor.\<close>

record attempt =
  url :: string
  params :: "(string \<times> json) list"
  normalize :: "json \<Rightarrow> json"

text \<open>\<^verbatim>\<open>(data: any) => data?.fills ?? data ?? []\<close> and the same with \<open>trades\<close>.\<close>

definition fillsOf :: "json \<Rightarrow> json" where
  "fillsOf data = coalesce [optProp data ''fills'', Some data] (JArr [])"

definition tradesOf :: "json \<Rightarrow> json" where
  "tradesOf data = coalesce [optProp data ''trades'', Some data] (JArr [])"

text \<open>
  \<^verbatim>\<open>const sinceSec = sinceMs ? Math.floor(sinceMs / 1000) : undefined\<close> and the spread
  \<^verbatim>\<open>...(sinceSec ? { since: sinceSec } : {})\<close>: both tests are false at \<open>0\<close>.
\<close>

definition sinceParam :: "real option \<Rightarrow> (string \<times> json) list" where
  "sinceParam sinceMs =
     (case sinceMs of
        None \<Rightarrow> []
      | Some ms \<Rightarrow>
          if ms = 0 then []
          else (let sinceSec = \<lfloor>ms / 1000\<rfloor>
                in if sinceSec = 0 then [] else [(''since'', JNum (of_int sinceSec))]))"

definition attempts :: "GammaClient \<Rightarrow> string \<Rightarrow> real option \<Rightarrow> real \<Rightarrow> attempt list" where
  "attempts g address sinceMs limit =
     (let since = sinceParam sinceMs;
          byAddress = [(''address'', JStr address), (''limit'', JNum limit)] @ since;
          byWallet = [(''walletAddress'', JStr address), (''limit'', JNum limit)] @ since;
          bare = [(''limit'', JNum limit)] @ since
      in [ \<lparr> url = baseUrl g @ ''/fills'', params = byAddress, normalize = fillsOf \<rparr>,
           \<lparr> url = baseUrl g @ ''/trades'', params = byAddress, normalize = tradesOf \<rparr>,
           \<lparr> url = baseUrl g @ ''/v1/trades'', params = byAddress, normalize = tradesOf \<rparr>,
           \<lparr> url = baseUrl g @ ''/v1/fills'', params = byAddress, normalize = fillsOf \<rparr>,
           \<lparr> url = baseUrl g @ ''/fills'', params = byWallet, normalize = fillsOf \<rparr>,
           \<lparr> url = baseUrl g @ ''/v1/trades'', params = byAddress, normalize = tradesOf \<rparr>,
           \<lparr> url = baseUrl g @ ''/v1/trades'', params = byWallet, normalize = tradesOf \<rparr>,
           \<lparr> url = baseUrl g @ ''/trades'', params = byAddress, normalize = tradesOf \<rparr>,
           \<lparr> url = baseUrl g @ ''/fills/address/'' @ address, params = bare, normalize = fillsOf \<rparr>,
           \<lparr> url = baseUrl g @ ''/trades/wallet/'' @ address, params = bare, normalize = tradesOf \<rparr> ])"

text \<open>
  What \<open>axios.get\<close> is called with, and what it gives: with \<open>validateStatus: () => true\<close>
  every HTTP status resolves, and a transport failure rejects with an \<open>AxiosError\<close>.
\<close>

record http_request =
  req_url :: string
  req_params :: "(string \<times> json) list"
  req_apiKey :: "string option"

datatype http_reply = Rejected string | Response int json

definition request :: "GammaClient \<Rightarrow> attempt \<Rightarrow> http_request" where
  "request g cand =
     \<lparr> req_url = url cand, req_params = params cand,
       req_apiKey = (case apiKey g of None \<Rightarrow> None | Some key \<Rightarrow> if key = [] then None else Some key) \<rparr>"

text \<open>\<open>xs.map(cb)\<close> with a callback that may throw: the first throw ends the \<open>map\<close>.\<close>

fun mapThrowing :: "('a \<Rightarrow> js_error + 'b) \<Rightarrow> 'a list \<Rightarrow> js_error + 'b list" where
  "mapThrowing cb [] = Inr []"
| "mapThrowing cb (x # xs) =
     (case cb x of
        Inl err \<Rightarrow> Inl err
      | Inr y \<Rightarrow> (case mapThrowing cb xs of Inl err \<Rightarrow> Inl err | Inr ys \<Rightarrow> Inr (y # ys)))"

text \<open>
  The body of the \<open>try\<close> once \<open>axios.get\<close> has settled. \<open>toFill\<close> is the callback given to
  \<open>raw.map\<close>: it builds one \<open>GammaFill\<close> from a raw element with the runtime's coercions
  (\<open>String\<close>, \<open>Number\<close>, \<open>toString\<close>, \<open>toUpperCase\<close>, \<open>Date.now\<close>) and throws where they do
  (a \<open>null\<close> element, for one); it is a parameter of the model. A \<open>raw\<close> that is not an array
  has no \<open>map\<close>, and the call throws a \<open>TypeError\<close>.
\<close>

definition attemptOutcome ::
  "(json \<Rightarrow> js_error + GammaFill) \<Rightarrow> attempt \<Rightarrow> http_reply \<Rightarrow> js_error + GammaFill list"
where
  "attemptOutcome toFill cand reply =
     (case reply of
        Rejected m \<Rightarrow> Inl (AxiosError m)
      | Response status data \<Rightarrow>
          if status = 401 then Inl (Error ''Unauthorized (401) from data source'')
          else if status = 404 then Inl (Error ''Not found (404)'')
          else (case normalize cand data of
                  JArr raw \<Rightarrow> mapThrowing toFill raw
                | _ \<Rightarrow> Inl (TypeError ''raw.map is not a function'')))"

text \<open>
  The loop \<open>for (const attempt of attempts)\<close> from the \<open>k\<close>-th candidate on, and the
  \<open>throw\<close> after it. \<open>http k req\<close> is what the \<open>k\<close>-th \<open>axios.get\<close> of the call gives for the
  request \<open>req\<close>. The result comes with the requests that were sent, in order.
\<close>

fun tryAttempts ::
  "(json \<Rightarrow> js_error + GammaFill) \<Rightarrow> (nat \<Rightarrow> http_request \<Rightarrow> http_reply) \<Rightarrow> GammaClient \<Rightarrow>
     nat \<Rightarrow> attempt list \<Rightarrow> js_error option \<Rightarrow> http_request list \<times> (js_error + GammaFill list)"
where
  "tryAttempts toFill http g k [] lastError =
     ([], Inl (case lastError of None \<Rightarrow> Error ''Unable to fetch fills'' | Some err \<Rightarrow> err))"
| "tryAttempts toFill http g k (cand # rest) lastError =
     (case attemptOutcome toFill cand (http k (request g cand)) of
        Inr fills \<Rightarrow> ([request g cand], Inr fills)
      | Inl err \<Rightarrow>
          (let (sent, res) = tryAttempts toFill http g (Suc k) rest (Some err)
           in (request g cand # sent, res)))"

definition fetchFillsByAddress ::
  "(json \<Rightarrow> js_error + GammaFill) \<Rightarrow> (nat \<Rightarrow> http_request \<Rightarrow> http_reply) \<Rightarrow> GammaClient \<Rightarrow>
     string \<Rightarrow> real option \<Rightarrow> real \<Rightarrow> http_request list \<times> (js_error + GammaFill list)"
where
  "fetchFillsByAddress toFill http g address sinceMs limit =
     tryAttempts toFill http g 0 (attempts g address sinceMs limit) None"

text \<open>The outcome of the \<open>k\<close>-th candidate of a call, were it attempted.\<close>

definition candidateOutcome ::
  "(json \<Rightarrow> js_error + GammaFill) \<Rightarrow> (nat \<Rightarrow> http_request \<Rightarrow> http_reply) \<Rightarrow> GammaClient \<Rightarrow>
     string \<Rightarrow> real option \<Rightarrow> real \<Rightarrow> nat \<Rightarrow> js_error + GammaFill list"
where
  "candidateOutcome toFill http g address sinceMs limit k =
     (let cand = attempts g address sinceMs limit ! k
      in attemptOutcome toFill cand (http k (request g cand)))"

section \<open>\<open>PolymarketClient\<close>\<close>

record ExecutionSettings =
  ex_rpcUrl :: string
  ex_maxSlippageBps :: real
  ex_dryRun :: bool
  ex_clobBaseUrl :: "string option"
  ex_clobApiKey :: "string option"
  ex_apiCreds :: "json option"

text \<open>
  The fields of \<open>class PolymarketClient\<close> that its methods read. \<open>mk_clob\<close> tells whether
  \<open>this.clob\<close> is defined (the constructor of \<open>ClobClient\<close> did not throw) and \<open>mk_sdk\<close>
  whether \<open>this.sdk\<close> is an object with a function \<open>ensureApprovals\<close>.
\<close>

record PolymarketClient =
  mk_dryRun :: bool
  mk_maxSlippageBps :: real
  mk_clobBaseUrl :: string
  mk_clobApiKey :: "string option"
  mk_clob :: bool
  mk_sdk :: bool

text \<open>
  The constructor. \<open>sdkOk\<close> and \<open>clobOk\<close> say how the two \<open>try\<close> blocks around the SDK's
  constructors ended; the provider and the wallet of \<open>ethers\<close> are not part of the model.
\<close>

definition newPolymarketClient :: "bool \<Rightarrow> bool \<Rightarrow> ExecutionSettings \<Rightarrow> PolymarketClient" where
  "newPolymarketClient sdkOk clobOk settings =
     \<lparr> mk_dryRun = ex_dryRun settings,
       mk_maxSlippageBps = ex_maxSlippageBps settings,
       mk_clobBaseUrl =
         stripTrailingSlash
           (case ex_clobBaseUrl settings of
              None \<Rightarrow> ''https://clob.polymarket.com''
            | Some u \<Rightarrow> if u = [] then ''https://clob.polymarket.com'' else u),
       mk_clobApiKey = ex_clobApiKey settings,
       mk_clob = clobOk,
       mk_sdk = sdkOk \<rparr>"

text \<open>The body posted to \<open>/orders\<close> and the argument of \<open>clob.createOrder\<close>.\<close>

record order_payload =
  pl_marketId :: string
  pl_outcomeId :: string
  pl_side :: side
  pl_price :: number
  pl_size :: number
  pl_slippage :: real

record clob_order =
  co_tokenID :: string
  co_price :: number
  co_side :: side
  co_size :: number
  co_feeRateBps :: real

text \<open>The calls that leave the client for the venue or its SDK, in order.\<close>

datatype venue_call =
    SdkEnsureApprovals
  | AxiosPost string order_payload "string option"
  | GetApiCreds
  | CreateOrDeriveApiCreds
  | CreateOrder clob_order
  | PostOrder json

text \<open>
  What the venue and the SDK answer during one \<open>mirrorOrder\<close>. \<open>axios_post\<close> resolves with
  \<open>res.data\<close> or rejects. A method of the \<open>ClobClient\<close> that the installed version lacks
  (\<open>typeof ... !== 'function'\<close>) is \<open>None\<close>; \<open>clob_getApiCreds\<close> gives whether the value it
  returns is truthy.
\<close>

record venue =
  sdk_ensureApprovals :: "js_error option"
  axios_post :: "order_payload \<Rightarrow> js_error + json"
  clob_getApiCreds :: "(js_error + bool) option"
  clob_createOrDeriveApiCreds :: "(js_error + json) option"
  clob_createOrder :: "clob_order \<Rightarrow> js_error + json"
  clob_postOrder :: "json \<Rightarrow> js_error + json"

definition ensureApprovals :: "PolymarketClient \<Rightarrow> venue \<Rightarrow> venue_call list \<times> js_error option" where
  "ensureApprovals mk v =
     (if mk_dryRun mk then ([], None)
      else if \<not> mk_sdk mk then ([], None)
      else ([SdkEnsureApprovals], sdk_ensureApprovals v))"

text \<open>
  The template literal of the dry run. \<open>fmt\<close> is the runtime's conversion of a number to a
  string, a parameter of the model.
  \<^verbatim>\<open>`dry-run:${order.marketId}:${order.outcomeId}:${order.side}:${order.size}@${order.price}~slip:${slippage}`\<close>
\<close>

definition sideString :: "side \<Rightarrow> string" where
  "sideString sd = (case sd of Buy \<Rightarrow> ''buy'' | Sell \<Rightarrow> ''sell'')"

definition dryRunToken :: "(number \<Rightarrow> string) \<Rightarrow> MirrorOrderRequest \<Rightarrow> real \<Rightarrow> string" where
  "dryRunToken fmt order slippage =
     ''dry-run:'' @ order_marketId order @ '':'' @ order_outcomeId order @ '':'' @
     sideString (order_side order) @ '':'' @ fmt (order_size order) @ ''@'' @
     fmt (order_price order) @ ''~slip:'' @ fmt (Num slippage)"

text \<open>The object literal posted to \<open>/orders\<close> and the one given to \<open>createOrder\<close>.\<close>

definition rawPayload :: "MirrorOrderRequest \<Rightarrow> real \<Rightarrow> order_payload" where
  "rawPayload order slippage =
     \<lparr> pl_marketId = order_marketId order, pl_outcomeId = order_outcomeId order,
       pl_side = order_side order, pl_price = order_price order,
       pl_size = order_size order, pl_slippage = slippage \<rparr>"

definition clobArgs :: "MirrorOrderRequest \<Rightarrow> clob_order" where
  "clobArgs order =
     \<lparr> co_tokenID = order_outcomeId order, co_price = order_price order,
       co_side = order_side order, co_size = order_size order, co_feeRateBps = 0 \<rparr>"

text \<open>The body of the \<open>try\<close> of \<open>mirrorOrder\<close>: first the branch \<open>if (!this.clob)\<close>.\<close>

definition postRaw ::
  "PolymarketClient \<Rightarrow> venue \<Rightarrow> MirrorOrderRequest \<Rightarrow> real \<Rightarrow> venue_call list \<times> (js_error + json)"
where
  "postRaw mk v order slippage =
     (let payload = rawPayload order slippage;
          header = (case mk_clobApiKey mk of
                      None \<Rightarrow> None
                    | Some key \<Rightarrow> if key = [] then None else Some key);
          call = AxiosPost (mk_clobBaseUrl mk @ ''/orders'') payload header
      in case axios_post v payload of
           Inl err \<Rightarrow> ([call], Inl err)
         | Inr tx \<Rightarrow>
             ([call],
              Inr (coalesce [optProp tx ''hash'', optProp tx ''transactionHash''] (JStr ''submitted''))))"

text \<open>
  The credentials step of the SDK path. An error thrown by \<open>getApiCreds\<close> leaves the \<open>try\<close>;
  one thrown while deriving is swallowed by the inner \<open>try { ... } catch {}\<close>.
\<close>

definition ensureCreds :: "venue \<Rightarrow> venue_call list \<times> js_error option" where
  "ensureCreds v =
     (case clob_getApiCreds v of
        Some (Inl err) \<Rightarrow> ([GetApiCreds], Some err)
      | Some (Inr True) \<Rightarrow> ([GetApiCreds], None)
      | other \<Rightarrow>
          (let got = (if other = None then [] else [GetApiCreds])
           in case clob_createOrDeriveApiCreds v of
                None \<Rightarrow> (got, None)
              | Some derived \<Rightarrow> (got @ [CreateOrDeriveApiCreds], None)))"

definition postClob ::
  "venue \<Rightarrow> MirrorOrderRequest \<Rightarrow> venue_call list \<times> (js_error + json)"
where
  "postClob v order =
     (case ensureCreds v of
        (calls, Some err) \<Rightarrow> (calls, Inl err)
      | (calls, None) \<Rightarrow>
          (let args = clobArgs order
           in case clob_createOrder v args of
                Inl err \<Rightarrow> (calls @ [CreateOrder args], Inl err)
              | Inr built \<Rightarrow>
                  (case clob_postOrder v built of
                     Inl err \<Rightarrow> (calls @ [CreateOrder args, PostOrder built], Inl err)
                   | Inr resp \<Rightarrow>
                       (calls @ [CreateOrder args, PostOrder built],
                        Inr (coalesce [optProp resp ''orderId'', optProp resp ''hash'']
                               (JStr ''submitted''))))))"

text \<open>
  \<open>mirrorOrder\<close>: the calls made and the value returned, or the error thrown by
  \<^verbatim>\<open>throw new Error(`Order failed: ${err instanceof Error ? err.message : String(err)}`)\<close>
\<close>

definition mirrorOrder ::
  "(number \<Rightarrow> string) \<Rightarrow> PolymarketClient \<Rightarrow> venue \<Rightarrow> MirrorOrderRequest \<Rightarrow>
     venue_call list \<times> (js_error + json)"
where
  "mirrorOrder fmt mk v order =
     (let slippage = mk_maxSlippageBps mk / 10000
      in if mk_dryRun mk then ([], Inr (JStr (dryRunToken fmt order slippage)))
         else case (if \<not> mk_clob mk then postRaw mk v order slippage else postClob v order) of
                (calls, Inl err) \<Rightarrow> (calls, Inl (Error (''Order failed: '' @ message err)))
              | (calls, Inr res) \<Rightarrow> (calls, Inr res))"

text \<open>
  The collaborators of a tick when \<open>this.mk\<close> is the client \<open>mk\<close>: \<open>venues k\<close> answers during
  the \<open>k\<close>-th \<open>mirrorOrder\<close> of the tick and \<open>approving\<close> during \<open>ensureApprovals\<close>.
\<close>

definition withClient ::
  "(number \<Rightarrow> string) \<Rightarrow> (number \<Rightarrow> number \<Rightarrow> number) \<Rightarrow> PolymarketClient \<Rightarrow> venue \<Rightarrow>
     (nat \<Rightarrow> venue) \<Rightarrow> (nat \<Rightarrow> string \<Rightarrow> js_value \<Rightarrow> js_error + GammaFill list) \<Rightarrow> tick_env"
where
  "withClient fmt mul mk approving venues fetch =
     \<lparr> gamma_fetch = fetch,
       mk_approve = snd (ensureApprovals mk approving),
       mk_mirror = (\<lambda>k req. snd (mirrorOrder fmt mk (venues k) req)),
       times = mul \<rparr>"

section \<open>Configuration\<close>

text \<open>
  The handler \<open>ipcMain.handle('copytrader:start', ...)\<close> up to \<open>service.start()\<close>: the
  \<open>GammaClient\<close>, the \<open>PolymarketClient\<close> and the settings it builds the \<open>CopyTraderService\<close>
  from (the payload itself). \<open>parseWallet\<close> is \<open>parseWalletFromInput\<close> followed by
  \<open>.privateKey\<close>.
\<close>

definition copytraderStart ::
  "bool \<Rightarrow> string option \<Rightarrow> string option \<Rightarrow> json option \<Rightarrow> (string \<Rightarrow> js_error + string) \<Rightarrow>
     bool \<Rightarrow> bool \<Rightarrow> CopySettings \<Rightarrow> string option \<Rightarrow>
     js_error + (GammaClient \<times> PolymarketClient \<times> CopySettings)"
where
  "copytraderStart win privateKey storedApiKey apiCreds parseWallet sdkOk clobOk payload clobBaseUrl =
     (if \<not> win then Inl (Error ''Window not ready'')
      else if privateKey = None \<or> privateKey = Some [] then Inl (Error ''No private key stored'')
      else case parseWallet (the privateKey) of
             Inl err \<Rightarrow> Inl err
           | Inr parsed \<Rightarrow>
               Inr (newGammaClient (gammaBaseUrl payload) None,
                    newPolymarketClient sdkOk clobOk
                      \<lparr> ex_rpcUrl = rpcUrl payload,
                        ex_maxSlippageBps = maxSlippageBps payload,
                        ex_dryRun = dryRun payload,
                        ex_clobBaseUrl =
                          Some (case clobBaseUrl of
                                  None \<Rightarrow> ''https://clob.polymarket.com''
                                | Some u \<Rightarrow> if u = [] then ''https://clob.polymarket.com'' else u),
                        ex_clobApiKey = storedApiKey,
                        ex_apiCreds = apiCreds \<rparr>,
                    payload))"

text \<open>
  The two setters of \<open>class HighPerformanceCopyTrader\<close> that its \<open>start(config)\<close> applies,
  on the two fields they write.
  \<^verbatim>\<open>
  this.copyFactor = Math.max(0, Math.min(5, factor))
  this.maxSlippageBps = Math.max(10, Math.min(1000, slippageBps))\<close>
\<close>

record HighPerformanceCopyTrader =
  hp_copyFactor :: real
  hp_maxSlippageBps :: real

definition newHighPerformanceCopyTrader :: HighPerformanceCopyTrader where
  "newHighPerformanceCopyTrader = \<lparr> hp_copyFactor = 1, hp_maxSlippageBps = 100 \<rparr>"

definition setCopyFactor :: "real \<Rightarrow> HighPerformanceCopyTrader \<Rightarrow> HighPerformanceCopyTrader" where
  "setCopyFactor factor t = t\<lparr>hp_copyFactor := max 0 (min 5 factor)\<rparr>"

definition setMaxSlippage :: "real \<Rightarrow> HighPerformanceCopyTrader \<Rightarrow> HighPerformanceCopyTrader" where
  "setMaxSlippage slippageBps t = t\<lparr>hp_maxSlippageBps := max 10 (min 1000 slippageBps)\<rparr>"

section \<open>Concrete inputs\<close>

definition demoSettings :: CopySettings where
  "demoSettings =
     \<lparr> gammaBaseUrl = ''https://data-api.polymarket.com'', rpcUrl = ''https://polygon-rpc.com'',
       targetAddresses = [''0xA''], copyFactor = Num (3 / 2), maxSlippageBps = 100, dryRun = False,
       pollIntervalMs = 15000, executionMode = Percent, fixedSize = Num 5, sellAllOnSell = False \<rparr>"

definition demoFill :: "string \<Rightarrow> side \<Rightarrow> real \<Rightarrow> real \<Rightarrow> GammaFill" where
  "demoFill i sd sz ts =
     \<lparr> fill_id = i, fill_marketId = ''m'', fill_outcomeId = ''o'', fill_side = sd,
       fill_price = Num (1 / 2), fill_size = Num sz, fill_timestamp = Num ts,
       fill_txHash = None, fill_outcomeIndex = None \<rparr>"

definition runningService :: CopyTraderService where
  "runningService = newService\<lparr>running := True, intervalId := Some 1\<rparr>"

text \<open>
  A product for the examples: exact on two finite numbers. The products taken in the
  examples (10 by 1.5, 10 by 7) are exact in doubles too.
\<close>

fun demoTimes :: "number \<Rightarrow> number \<Rightarrow> number" where
  "demoTimes (Num x) (Num y) = Num (x * y)"
| "demoTimes x y = NaN"

text \<open>
  The collaborators of a tick given as scripts: the outcome of the \<open>k\<close>-th fetch and of the
  \<open>k\<close>-th submission are the \<open>k\<close>-th entries of two lists.
\<close>

definition scriptedTick ::
  "(js_error + GammaFill list) list \<Rightarrow> js_error option \<Rightarrow> (js_error + json) list \<Rightarrow> tick_env"
where
  "scriptedTick fetches approve mirrors =
     \<lparr> gamma_fetch = (\<lambda>k a since. if k < length fetches then fetches ! k else Inr []),
       mk_approve = approve,
       mk_mirror = (\<lambda>k req. if k < length mirrors then mirrors ! k else Inr (JStr ''submitted'')),
       times = demoTimes \<rparr>"

text \<open>
  The overlap of two polls: the first returns \<open>f1\<close> at 100 and \<open>f2\<close> at 150, the second
  \<open>f2\<close> again and \<open>f3\<close> at 200.
\<close>

definition overlapFirst :: tick_env where
  "overlapFirst =
     scriptedTick [Inr [demoFill ''f1'' Buy 10 100, demoFill ''f2'' Buy 10 150]] None []"

definition overlapSecond :: tick_env where
  "overlapSecond =
     scriptedTick [Inr [demoFill ''f2'' Buy 10 150, demoFill ''f3'' Buy 10 200]] None []"

text \<open>Two watched addresses: the fetch for the first fails, the second returns one fill.\<close>

definition twoAddresses :: CopySettings where
  "twoAddresses = demoSettings\<lparr>targetAddresses := [''0xA'', ''0xB'']\<rparr>"

definition firstFetchFails :: tick_env where
  "firstFetchFails =
     scriptedTick [Inl (AxiosError ''Network Error''), Inr [demoFill ''f1'' Buy 10 100]] None
       [Inr (JStr ''0xabc'')]"

text \<open>The same fetches, but \<open>ensureApprovals\<close> rejects.\<close>

definition approvalsReject :: tick_env where
  "approvalsReject =
     scriptedTick [Inl (AxiosError ''Network Error''), Inr [demoFill ''f1'' Buy 10 100]]
       (Some (Error ''approval failed'')) []"

text \<open>
  Three watched addresses: the fetch for the second fails, the first and the third return
  fills, one of them already delivered by the first.
\<close>

definition threeAddresses :: CopySettings where
  "threeAddresses = demoSettings\<lparr>targetAddresses := [''0xA'', ''0xB'', ''0xC'']\<rparr>"

definition secondFetchFails :: tick_env where
  "secondFetchFails =
     scriptedTick
       [Inr [demoFill ''f1'' Buy 10 100],
        Inl (AxiosError ''Network Error''),
        Inr [demoFill ''f2'' Buy 10 150, demoFill ''f3'' Sell 10 200]]
       None []"

text \<open>Watched addresses that name properties of \<open>Object.prototype\<close>.\<close>

definition watchConstructor :: CopySettings where
  "watchConstructor = demoSettings\<lparr>targetAddresses := [''constructor'']\<rparr>"

definition watchProto :: CopySettings where
  "watchProto = demoSettings\<lparr>targetAddresses := [''__proto__'']\<rparr>"

text \<open>One address with two new fills; the submission for the first is rejected.\<close>

definition firstSubmitFails :: tick_env where
  "firstSubmitFails =
     scriptedTick [Inr [demoFill ''f1'' Buy 10 100, demoFill ''f2'' Buy 10 150]] None
       [Inl (Error ''Order failed: rejected'')]"

definition redelivery :: tick_env where
  "redelivery = scriptedTick [Inr [demoFill ''f2'' Buy 10 150]] None []"

text \<open>
  Replies to the candidates of one \<open>fetchFillsByAddress\<close>: 404, then 401, then a body whose
  \<open>trades\<close> holds one element; a callback for that element.
\<close>

definition thirdSucceeds :: "nat \<Rightarrow> http_request \<Rightarrow> http_reply" where
  "thirdSucceeds k req =
     (if k = 0 then Response 404 JNull
      else if k = 1 then Response 401 JNull
      else Response 200 (JObj [(''fills'', JNum 7), (''trades'', JArr [JStr ''raw'']) ]))"

definition allNotFound :: "nat \<Rightarrow> http_request \<Rightarrow> http_reply" where
  "allNotFound k req = (if k = 9 then Rejected ''timeout of 12000ms exceeded'' else Response 404 JNull)"

definition demoToFill :: "json \<Rightarrow> js_error + GammaFill" where
  "demoToFill raw = Inr (demoFill ''f1'' Buy 10 100)"

definition demoGamma :: GammaClient where
  "demoGamma = newGammaClient ''https://data-api.polymarket.com/'' None"

text \<open>Clients, an order and venues.\<close>

definition demoFmt :: "number \<Rightarrow> string" where
  "demoFmt x = (if x = Num 15 then ''15'' else if x = Num (1 / 2) then ''0.5'' else ''0.01'')"

definition demoExecution :: ExecutionSettings where
  "demoExecution =
     \<lparr> ex_rpcUrl = ''https://polygon-rpc.com'', ex_maxSlippageBps = 100, ex_dryRun = False,
       ex_clobBaseUrl = None, ex_clobApiKey = None, ex_apiCreds = None \<rparr>"

definition dryClient :: PolymarketClient where
  "dryClient = newPolymarketClient True True (demoExecution\<lparr>ex_dryRun := True\<rparr>)"

definition rawClient :: PolymarketClient where
  "rawClient = newPolymarketClient False False demoExecution"

definition demoOrder :: MirrorOrderRequest where
  "demoOrder = mirrorRequest demoTimes demoSettings (demoFill ''f1'' Buy 10 100)"

definition quietVenue :: venue where
  "quietVenue =
     \<lparr> sdk_ensureApprovals = None,
       axios_post = (\<lambda>p. Inr (JObj [(''hash'', JStr ''0xabc'')])),
       clob_getApiCreds = None,
       clob_createOrDeriveApiCreds = None,
       clob_createOrder = (\<lambda>args. Inr JNull),
       clob_postOrder = (\<lambda>built. Inr (JObj [(''orderId'', JStr ''42'')])) \<rparr>"

definition echoingVenue :: venue where
  "echoingVenue =
     quietVenue\<lparr>axios_post := (\<lambda>p. Inr (JObj [(''hash'', JStr ''skipped:client-unavailable'')]))\<rparr>"

definition oneFill :: "nat \<Rightarrow> string \<Rightarrow> js_value \<Rightarrow> js_error + GammaFill list" where
  "oneFill k a since = Inr [demoFill ''f1'' Buy 10 100]"

definition rejectingVenue :: venue where
  "rejectingVenue =
     quietVenue\<lparr>axios_post := (\<lambda>p. Inl (AxiosError ''Request failed with status code 400''))\<rparr>"

definition echoingVenues :: "nat \<Rightarrow> venue" where
  "echoingVenues k = echoingVenue"

definition echoingTick :: tick_env where
  "echoingTick = withClient demoFmt demoTimes rawClient quietVenue echoingVenues oneFill"

definition dryTick :: tick_env where
  "dryTick = withClient demoFmt demoTimes dryClient quietVenue echoingVenues oneFill"

text \<open>The handler called with a copy factor of 7 and a slippage of 5000 basis points.\<close>

definition unclampedStart :: "js_error + (GammaClient \<times> PolymarketClient \<times> CopySettings)" where
  "unclampedStart =
     copytraderStart True (Some ''0xkey'') None None Inr False True
       (demoSettings\<lparr>copyFactor := Num 7, maxSlippageBps := 5000\<rparr>) None"

section \<open>The invariant of the seen sets\<close>

definition aggregatedKeys :: "(GammaFill \<times> string) list \<Rightarrow> (string \<times> string) list" where
  "aggregatedKeys agg = map (\<lambda>(f, a). (a, fill_id f)) agg"

text \<open>
  \<open>fresh st ks st'\<close>: between the states \<open>st\<close> and \<open>st'\<close> the seen sets only grew, and the
  pairs \<open>ks\<close> of an address and an id are pairwise different, were unseen in \<open>st\<close> and are
  seen in \<open>st'\<close>.
\<close>

definition fresh :: "CopyTraderService \<Rightarrow> (string \<times> string) list \<Rightarrow> CopyTraderService \<Rightarrow> bool" where
  "fresh st ks st' \<longleftrightarrow>
     distinct ks \<and>
     (\<forall>(a, i) \<in> set ks. i \<notin> seenFillIds st a \<and> i \<in> seenFillIds st' a) \<and>
     (\<forall>a. seenFillIds st a \<subseteq> seenFillIds st' a)"

text \<open>\<open>aggregated\<close> as the first loop of a tick leaves it.\<close>

definition aggregatedOf :: "CopySettings \<Rightarrow> tick_env \<Rightarrow> CopyTraderService \<Rightarrow> (GammaFill \<times> string) list" where
  "aggregatedOf s env st = fst (snd (pollAddresses env 0 (targetAddresses s) st))"

text \<open>The collaborators \<open>env\<close>, but with every fetch that fails returning no fills instead.\<close>

definition healed :: "tick_env \<Rightarrow> tick_env" where
  "healed env =
     env\<lparr>gamma_fetch :=
           (\<lambda>k a since. case gamma_fetch env k a since of
                           Inl err \<Rightarrow> Inr []
                         | Inr fills \<Rightarrow> Inr fills)\<rparr>"

text \<open>Every fill that the fetches of these ticks return has a finite timestamp.\<close>

definition finiteStamps :: "tick_env list \<Rightarrow> bool" where
  "finiteStamps envs \<longleftrightarrow>
     (\<forall>env \<in> set envs. \<forall>k a since fills. gamma_fetch env k a since = Inr fills \<longrightarrow>
        (\<forall>f \<in> set fills. \<exists>t. fill_timestamp f = Num t))"

section \<open>Theorems\<close>

subsection \<open>Sizing\<close>

text \<open>
  Claim C4. The size of the mirrored order built for a fill is the sentinel \<open>1\<close> whenever
  the fill is a sell and \<open>sellAllOnSell\<close> is set, whatever the mode, \<open>copyFactor\<close>,
  \<open>fixedSize\<close> and the fill's size are; otherwise it is \<open>fixedSize\<close> in fixed mode and in
  percent mode the runtime's product \<open>fill.size * copyFactor\<close>.
\<close>

theorem mirror_order_size:
  "(fill_side f = Sell \<and> sellAllOnSell s \<longrightarrow> order_size (mirrorRequest mul s f) = Num 1) \<and>
   (\<not> (fill_side f = Sell \<and> sellAllOnSell s) \<and> executionMode s = Fixed \<longrightarrow>
      order_size (mirrorRequest mul s f) = fixedSize s) \<and>
   (\<not> (fill_side f = Sell \<and> sellAllOnSell s) \<and> executionMode s = Percent \<longrightarrow>
      order_size (mirrorRequest mul s f) = mul (fill_size f) (copyFactor s))"
  by (simp add: mirrorRequest_def mirrorSize_def baseSize_def)

theorem mirror_order_size_witness:
  "order_size (mirrorRequest demoTimes (demoSettings\<lparr>copyFactor := Num (3 / 2)\<rparr>) (demoFill ''f1'' Buy 10 100))
     = Num 15 \<and>
   order_size (mirrorRequest demoTimes (demoSettings\<lparr>executionMode := Fixed, fixedSize := Num 5\<rparr>)
     (demoFill ''f1'' Buy 10 100)) = Num 5 \<and>
   order_size (mirrorRequest demoTimes (demoSettings\<lparr>sellAllOnSell := True, copyFactor := NaN\<rparr>)
     (demoFill ''f1'' Sell 10 100)) = Num 1 \<and>
   order_size (mirrorRequest demoTimes (demoSettings\<lparr>copyFactor := NaN\<rparr>) (demoFill ''f1'' Buy 10 100))
     = NaN"
  using mirror_order_size [of "demoFill ''f1'' Buy 10 100" "demoSettings\<lparr>copyFactor := Num (3 / 2)\<rparr>" demoTimes]
        mirror_order_size [of "demoFill ''f1'' Buy 10 100"
           "demoSettings\<lparr>executionMode := Fixed, fixedSize := Num 5\<rparr>" demoTimes]
        mirror_order_size [of "demoFill ''f1'' Sell 10 100"
           "demoSettings\<lparr>sellAllOnSell := True, copyFactor := NaN\<rparr>" demoTimes]
        mirror_order_size [of "demoFill ''f1'' Buy 10 100" "demoSettings\<lparr>copyFactor := NaN\<rparr>" demoTimes]
  by (simp add: demoSettings_def demoFill_def)

subsection \<open>The cursor\<close>

lemma seenFillIds_setTimestamp: "seenFillIds (setTimestamp a n st) b = seenFillIds st b"
  by (simp add: setTimestamp_def seenFillIds_def)

lemma lastTimestampMs_setTimestamp:
  "lastTimestampMs (setTimestamp a n st) b =
     (if b = a \<and> a \<noteq> ''__proto__'' then Numeric n else lastTimestampMs st b)"
  by (simp add: setTimestamp_def lastTimestampMs_def getTimestamp_def)

lemma seen_init_cursor:
  "lastTimestampMs (st\<lparr>seenFillIdsByAddress := m\<rparr>) b = lastTimestampMs st b"
  by (simp add: lastTimestampMs_def getTimestamp_def)

lemma processFill_cursor:
  "lastTimestampMs (fst (processFill a f st)) b =
     (if b = a \<and> a \<noteq> ''__proto__''
      then Numeric (mathMax (toNumber (lastTimestampMs st a)) (fill_timestamp f))
      else lastTimestampMs st b)"
  by (simp add: processFill_def Let_def lastTimestampMs_setTimestamp seen_init_cursor
           split: prod.splits)

lemma processFill_cursor_mono:
  assumes "lastTimestampMs st b = Numeric (Num c)" and "fill_timestamp f = Num t"
  shows "\<exists>c'. lastTimestampMs (fst (processFill a f st)) b = Numeric (Num c') \<and> c \<le> c'"
  using assms by (auto simp add: processFill_cursor)

lemma processFills_cursor_mono:
  assumes "\<forall>f \<in> set fs. \<exists>t. fill_timestamp f = Num t"
    and "lastTimestampMs st b = Numeric (Num c)"
  shows "\<exists>c'. lastTimestampMs (fst (processFills a fs st)) b = Numeric (Num c') \<and> c \<le> c'"
  using assms
proof (induction fs arbitrary: st c)
  case Nil
  then show ?case by simp
next
  case (Cons f fs)
  from Cons.prems(1) obtain t where t: "fill_timestamp f = Num t" by auto
  from processFill_cursor_mono [OF Cons.prems(2) t, of a]
  obtain c1 where c1: "lastTimestampMs (fst (processFill a f st)) b = Numeric (Num c1)" "c \<le> c1"
    by blast
  from Cons.prems(1) have rest: "\<forall>f \<in> set fs. \<exists>t. fill_timestamp f = Num t" by simp
  from Cons.IH [OF rest c1(1)]
  obtain c2 where "lastTimestampMs (fst (processFills a fs (fst (processFill a f st)))) b = Numeric (Num c2)"
    "c1 \<le> c2" by blast
  with c1(2) show ?case
    by (auto simp add: split_beta Let_def)
qed

lemma pollAddresses_cursor_mono:
  assumes "finiteStamps [env]" and "lastTimestampMs st b = Numeric (Num c)"
  shows "\<exists>c'. lastTimestampMs (fst (pollAddresses env k as st)) b = Numeric (Num c') \<and> c \<le> c'"
  using assms(2)
proof (induction as arbitrary: st k c)
  case Nil
  then show ?case by simp
next
  case (Cons a as)
  let ?st1 = "st\<lparr>seenFillIdsByAddress := (seenFillIdsByAddress st)(a \<mapsto> seenFillIds st a)\<rparr>"
  have st1: "lastTimestampMs ?st1 b = Numeric (Num c)"
    using Cons.prems by (simp add: seen_init_cursor)
  show ?case
  proof (cases "gamma_fetch env k a (lastTimestampMs st a)")
    case (Inl err)
    from Cons.IH [OF st1, of "Suc k"] Inl show ?thesis
      by (simp add: split_beta Let_def)
  next
    case (Inr fills)
    from assms(1) Inr have "\<forall>f \<in> set fills. \<exists>t. fill_timestamp f = Num t"
      unfolding finiteStamps_def by auto
    from processFills_cursor_mono [OF this st1, of a]
    obtain c1 where c1: "lastTimestampMs (fst (processFills a fills ?st1)) b = Numeric (Num c1)" "c \<le> c1"
      by blast
    from Cons.IH [OF c1(1), of "Suc k"]
    obtain c2 where "lastTimestampMs (fst (pollAddresses env (Suc k) as (fst (processFills a fills ?st1)))) b
                       = Numeric (Num c2)" "c1 \<le> c2" by blast
    with c1(2) Inr show ?thesis
      by (auto simp add: split_beta Let_def)
  qed
qed

lemma tick_state:
  "fst (tick s env st) = (if running st then fst (pollAddresses env 0 (targetAddresses s) st) else st)"
  by (simp add: tick_def split_beta Let_def split: option.splits)

lemma runTick_state: "fst (runTick s env st) = fst (tick s env st)"
  by (simp add: runTick_def split: prod.splits option.splits)

lemma runTick_cursor_mono:
  assumes "finiteStamps [env]" and "lastTimestampMs st b = Numeric (Num c)"
  shows "\<exists>c'. lastTimestampMs (fst (runTick s env st)) b = Numeric (Num c') \<and> c \<le> c'"
proof (cases "running st")
  case True
  with pollAddresses_cursor_mono [OF assms, of 0 "targetAddresses s"] show ?thesis
    by (simp add: runTick_state tick_state)
next
  case False
  with assms(2) show ?thesis
    by (simp add: runTick_state tick_state)
qed

lemma runTicks_cursor_mono:
  assumes "finiteStamps envs" and "lastTimestampMs st b = Numeric (Num c)"
  shows "\<exists>c'. lastTimestampMs (fst (runTicks s envs st)) b = Numeric (Num c') \<and> c \<le> c'"
  using assms
proof (induction envs arbitrary: st c)
  case Nil
  then show ?case by simp
next
  case (Cons env envs)
  from Cons.prems(1) have one: "finiteStamps [env]" and rest: "finiteStamps envs"
    unfolding finiteStamps_def by simp_all
  from runTick_cursor_mono [OF one Cons.prems(2), of s]
  obtain c1 where c1: "lastTimestampMs (fst (runTick s env st)) b = Numeric (Num c1)" "c \<le> c1"
    by blast
  from Cons.IH [OF rest c1(1)]
  obtain c2 where "lastTimestampMs (fst (runTicks s envs (fst (runTick s env st)))) b = Numeric (Num c2)"
    "c1 \<le> c2" by blast
  with c1(2) show ?case
    by (auto simp add: split_beta Let_def)
qed

lemma fresh_cursor:
  "b \<notin> set objectPrototypeKeys \<Longrightarrow> lastTimestampMs newService b = Numeric (Num 0)"
  by (auto simp add: lastTimestampMs_def getTimestamp_def newService_def objectPrototypeKeys_def)

text \<open>
  Claim C3, evaluated where it fails. For the watched address \<open>constructor\<close> the read
  \<open>this.lastTimestampMsByAddress[address]\<close> finds the function inherited from
  \<open>Object.prototype\<close>: the first fetch is passed that function as \<open>since\<close>, and the first
  fill turns the cursor into \<open>NaN\<close>, where it stays, whatever the timestamps are. For the
  address \<open>__proto__\<close> the assignment stores nothing. For an address such as \<open>0xA\<close> the
  cursor after the same fills is their maximum, 150 (\<open>runTicks_cursor_mono\<close> has the
  general statement for a cursor that is a finite number).
\<close>

theorem cursor_of_prototype_key_is_lost:
  "lastTimestampMs runningService ''constructor'' = Inherited \<and>
   fetchCalls (snd (runTick watchConstructor overlapFirst runningService))
     = [(''constructor'', Inherited)] \<and>
   lastTimestampMs (fst (runTick watchConstructor overlapFirst runningService)) ''constructor''
     = Numeric NaN \<and>
   lastTimestampMs (fst (runTicks watchConstructor [overlapFirst, overlapSecond] runningService)) ''constructor''
     = Numeric NaN \<and>
   lastTimestampMs (fst (runTick watchProto overlapFirst runningService)) ''__proto__'' = Inherited \<and>
   lastTimestampMs (fst (runTick demoSettings overlapFirst runningService)) ''0xA'' = Numeric (Num 150)"
  by code_simp

subsection \<open>Deduplication\<close>

lemma fresh_refl: "fresh st [] st"
  by (simp add: fresh_def)

lemma fresh_trans:
  assumes "fresh st ks1 st1" and "fresh st1 ks2 st2"
  shows "fresh st (ks1 @ ks2) st2"
  using assms unfolding fresh_def by fastforce

lemma fresh_take: "fresh st ks st' \<Longrightarrow> fresh st (take n ks) st'"
  unfolding fresh_def by (auto dest: in_set_takeD)

lemma seen_update:
  "seenFillIds (st\<lparr>seenFillIdsByAddress := (seenFillIdsByAddress st)(a \<mapsto> ids)\<rparr>) b =
     (if b = a then ids else seenFillIds st b)"
  by (simp add: seenFillIds_def)

lemma processFill_seen:
  "seenFillIds (fst (processFill a f st)) b =
     (if b = a then insert (fill_id f) (seenFillIds st a) else seenFillIds st b)"
  by (auto simp add: processFill_def seenFillIds_setTimestamp seen_update Let_def
        split: prod.splits)

lemma processFill_pushed:
  "snd (processFill a f st) = (if fill_id f \<in> seenFillIds st a then [] else [(f, a)])"
  by (simp add: processFill_def Let_def split: prod.splits)

lemma processFill_fresh:
  "fresh st (aggregatedKeys (snd (processFill a f st))) (fst (processFill a f st))"
  by (auto simp add: fresh_def aggregatedKeys_def processFill_seen processFill_pushed)

lemma aggregatedKeys_append:
  "aggregatedKeys (xs @ ys) = aggregatedKeys xs @ aggregatedKeys ys"
  by (simp add: aggregatedKeys_def)

lemma processFills_fresh:
  "fresh st (aggregatedKeys (snd (processFills a fs st))) (fst (processFills a fs st))"
proof (induction fs arbitrary: st)
  case Nil
  show ?case by (simp add: aggregatedKeys_def fresh_refl)
next
  case (Cons f fs)
  have "fresh st (aggregatedKeys (snd (processFill a f st)) @
                  aggregatedKeys (snd (processFills a fs (fst (processFill a f st)))))
          (fst (processFills a fs (fst (processFill a f st))))"
    by (rule fresh_trans [OF processFill_fresh Cons.IH])
  then show ?case
    by (simp add: split_beta Let_def aggregatedKeys_append)
qed

lemma seen_init_seen:
  "seenFillIds (st\<lparr>seenFillIdsByAddress := (seenFillIdsByAddress st)(a \<mapsto> seenFillIds st a)\<rparr>) b
     = seenFillIds st b"
  by (simp add: seenFillIds_def)

lemma fresh_seen_init:
  "fresh (st\<lparr>seenFillIdsByAddress := (seenFillIdsByAddress st)(a \<mapsto> seenFillIds st a)\<rparr>) ks st'
     \<longleftrightarrow> fresh st ks st'"
  by (simp add: fresh_def seen_init_seen)

lemma pollAddresses_fresh:
  "fresh st (aggregatedKeys (fst (snd (pollAddresses env k as st)))) (fst (pollAddresses env k as st))"
proof (induction as arbitrary: st k)
  case Nil
  show ?case by (simp add: aggregatedKeys_def fresh_refl)
next
  case (Cons a as)
  let ?st1 = "st\<lparr>seenFillIdsByAddress := (seenFillIdsByAddress st)(a \<mapsto> seenFillIds st a)\<rparr>"
  show ?case
  proof (cases "gamma_fetch env k a (lastTimestampMs st a)")
    case (Inl err)
    have "fresh ?st1 (aggregatedKeys (fst (snd (pollAddresses env (Suc k) as ?st1))))
            (fst (pollAddresses env (Suc k) as ?st1))"
      by (rule Cons.IH)
    then show ?thesis using Inl
      by (simp add: split_beta Let_def fresh_seen_init)
  next
    case (Inr fills)
    let ?st2 = "fst (processFills a fills ?st1)"
    have "fresh ?st1 (aggregatedKeys (snd (processFills a fills ?st1)) @
                      aggregatedKeys (fst (snd (pollAddresses env (Suc k) as ?st2))))
            (fst (pollAddresses env (Suc k) as ?st2))"
      by (rule fresh_trans [OF processFills_fresh Cons.IH])
    then show ?thesis using Inr
      by (simp add: split_beta Let_def fresh_seen_init aggregatedKeys_append)
  qed
qed

lemma submitted_append: "submitted (xs @ ys) = submitted xs @ submitted ys"
  by (induction xs rule: submitted.induct) simp_all

lemma pollAddresses_submitted: "submitted (snd (snd (pollAddresses env k as st))) = []"
  by (induction as arbitrary: st k) (simp_all add: split_beta Let_def submitted_append split: sum.splits)

lemma submitAll_submitted:
  "\<exists>n. submitted (fst (submitAll s env k agg)) = take n (aggregatedKeys agg)"
proof (induction agg arbitrary: k)
  case Nil
  show ?case by (simp add: aggregatedKeys_def)
next
  case (Cons fa agg)
  obtain f a where fa: "fa = (f, a)" by (cases fa)
  show ?case
  proof (cases "mk_mirror env k (mirrorRequest (times env) s f)")
    case (Inl err)
    have "submitted (fst (submitAll s env k (fa # agg))) = take (Suc 0) (aggregatedKeys (fa # agg))"
      using Inl fa by (simp add: aggregatedKeys_def)
    then show ?thesis ..
  next
    case (Inr txHash)
    from Cons.IH [of "Suc k"] obtain n
      where n: "submitted (fst (submitAll s env (Suc k) agg)) = take n (aggregatedKeys agg)" ..
    have "submitted (fst (submitAll s env k (fa # agg))) = take (Suc n) (aggregatedKeys (fa # agg))"
      using Inr fa n by (simp add: aggregatedKeys_def split_beta Let_def)
    then show ?thesis ..
  qed
qed

lemma tick_fresh:
  "fresh st (submitted (fst (snd (tick s env st)))) (fst (tick s env st))"
proof (cases "running st")
  case False
  then show ?thesis by (simp add: tick_def fresh_refl)
next
  case True
  let ?p = "pollAddresses env 0 (targetAddresses s) st"
  have fr: "fresh st (aggregatedKeys (fst (snd ?p))) (fst ?p)"
    by (rule pollAddresses_fresh)
  obtain n where n: "submitted (fst (submitAll s env 0 (fst (snd ?p)))) = take n (aggregatedKeys (fst (snd ?p)))"
    using submitAll_submitted by blast
  have frn: "fresh st (take n (aggregatedKeys (fst (snd ?p)))) (fst ?p)"
    by (rule fresh_take [OF fr])
  have fr0: "fresh st [] (fst ?p)"
    using fresh_take [OF fr, of 0] by simp
  show ?thesis using True frn fr0 n
    by (simp add: tick_def split_beta Let_def submitted_append pollAddresses_submitted
             split: option.splits)
qed

lemma runTick_submitted:
  "submitted (snd (runTick s env st)) = submitted (fst (snd (tick s env st)))"
  by (simp add: runTick_def submitted_append split: prod.splits option.splits)

lemma runTicks_fresh:
  "fresh st (submitted (snd (runTicks s envs st))) (fst (runTicks s envs st))"
proof (induction envs arbitrary: st)
  case Nil
  show ?case by (simp add: fresh_refl)
next
  case (Cons env envs)
  have one: "fresh st (submitted (snd (runTick s env st))) (fst (runTick s env st))"
    using tick_fresh [of st s env] by (simp add: runTick_submitted runTick_state)
  have "fresh st (submitted (snd (runTick s env st)) @
                  submitted (snd (runTicks s envs (fst (runTick s env st)))))
          (fst (runTicks s envs (fst (runTick s env st))))"
    by (rule fresh_trans [OF one Cons.IH])
  then show ?case
    by (simp add: split_beta Let_def submitted_append)
qed

text \<open>
  Claim C2. Over any session the submissions made, taken as pairs of the address and the
  fill's id, are pairwise different, and none is for an id that was already in the
  address's seen set when the session began; a fill delivered while its id is in the
  address's seen set pushes nothing onto \<open>aggregated\<close>, so that it is not submitted.
\<close>

theorem mirrored_at_most_once:
  "distinct (submitted (snd (runTicks s envs st))) \<and>
   (\<forall>(a, i) \<in> set (submitted (snd (runTicks s envs st))). i \<notin> seenFillIds st a) \<and>
   (fill_id f \<in> seenFillIds st a \<longrightarrow> snd (processFill a f st) = [])"
  using runTicks_fresh [of st s envs]
  by (auto simp add: fresh_def processFill_pushed)

lemma overlap_submitted:
  "submitted (snd (runTicks demoSettings [overlapFirst, overlapSecond] runningService)) =
     [(''0xA'', ''f1''), (''0xA'', ''f2''), (''0xA'', ''f3'')]"
  by code_simp

lemma overlap_seen:
  "seenFillIds (fst (runTicks demoSettings [overlapFirst] runningService)) ''0xA'' = {''f1'', ''f2''}"
  by code_simp

theorem mirrored_at_most_once_witness:
  "distinct [(''0xA'', ''f1''), (''0xA'', ''f2''), (''0xA'', ''f3'')] \<and>
   submitted (snd (runTicks demoSettings [overlapFirst, overlapSecond] runningService)) =
     [(''0xA'', ''f1''), (''0xA'', ''f2''), (''0xA'', ''f3'')] \<and>
   fill_id (demoFill ''f2'' Buy 10 150)
     \<in> seenFillIds (fst (runTicks demoSettings [overlapFirst] runningService)) ''0xA'' \<and>
   snd (processFill ''0xA'' (demoFill ''f2'' Buy 10 150)
          (fst (runTicks demoSettings [overlapFirst] runningService))) = []"
  using mirrored_at_most_once [of demoSettings "[overlapFirst, overlapSecond]" runningService
          "demoFill ''f2'' Buy 10 150" "''0xA''"]
        mirrored_at_most_once [of demoSettings "[overlapFirst]"
          "fst (runTicks demoSettings [overlapFirst] runningService)"
          "demoFill ''f2'' Buy 10 150" "''0xA''"]
  unfolding overlap_submitted overlap_seen
  by (simp add: demoFill_def)

subsection \<open>Failures of a fetch and of a submission\<close>

lemma fetchCalls_append: "fetchCalls (xs @ ys) = fetchCalls xs @ fetchCalls ys"
  by (induction xs rule: fetchCalls.induct) simp_all

lemma pollAddresses_fetches_all:
  "map fst (fetchCalls (snd (snd (pollAddresses env k as st)))) = as"
  by (induction as arbitrary: st k)
     (simp_all add: split_beta Let_def fetchCalls_append split: sum.splits)

lemma pollAddresses_reports:
  assumes "i < length (fetchCalls (snd (snd (pollAddresses env k as st))))"
    and "gamma_fetch env (k + i) (fst (fetchCalls (snd (snd (pollAddresses env k as st))) ! i))
           (snd (fetchCalls (snd (snd (pollAddresses env k as st))) ! i)) = Inl e"
  shows "ReportError (message e) \<in> set (snd (snd (pollAddresses env k as st)))"
  using assms
proof (induction as arbitrary: st k i)
  case Nil
  then show ?case by simp
next
  case (Cons a as)
  let ?st1 = "st\<lparr>seenFillIdsByAddress := (seenFillIdsByAddress st)(a \<mapsto> seenFillIds st a)\<rparr>"
  show ?case
  proof (cases i)
    case 0
    with Cons.prems show ?thesis
      by (auto simp add: split_beta Let_def fetchCalls_append split: sum.splits)
  next
    case (Suc j)
    show ?thesis
    proof (cases "gamma_fetch env k a (lastTimestampMs st a)")
      case (Inl err)
      from Cons.prems Suc Inl
      have "ReportError (message e) \<in> set (snd (snd (pollAddresses env (Suc k) as ?st1)))"
        by (intro Cons.IH [of j]) (simp_all add: split_beta Let_def)
      then show ?thesis using Inl by (simp add: split_beta Let_def)
    next
      case (Inr fills)
      let ?st2 = "fst (processFills a fills ?st1)"
      from Cons.prems Suc Inr
      have "ReportError (message e) \<in> set (snd (snd (pollAddresses env (Suc k) as ?st2)))"
        by (intro Cons.IH [of j]) (simp_all add: split_beta Let_def)
      then show ?thesis using Inr by (simp add: split_beta Let_def)
    qed
  qed
qed

lemma submitAll_fetchCalls: "fetchCalls (fst (submitAll s env k agg)) = []"
  by (induction agg arbitrary: k) (auto simp add: split_beta Let_def split: sum.splits)

lemma tick_fetchCalls:
  "running st \<Longrightarrow>
   fetchCalls (fst (snd (tick s env st))) =
     fetchCalls (snd (snd (pollAddresses env 0 (targetAddresses s) st)))"
  by (simp add: tick_def split_beta Let_def fetchCalls_append submitAll_fetchCalls
           split: option.splits)

lemma tick_effects_prefix:
  "running st \<Longrightarrow>
   set (snd (snd (pollAddresses env 0 (targetAddresses s) st))) \<subseteq> set (fst (snd (tick s env st)))"
  by (auto simp add: tick_def split_beta Let_def split: option.splits)

lemma processFills_seen:
  "seenFillIds (fst (processFills a fs st)) b =
     (if b = a then seenFillIds st a \<union> fill_id ` set fs else seenFillIds st b)"
  by (induction fs arbitrary: st) (auto simp add: split_beta Let_def processFill_seen)

lemma processFills_new_pushed:
  assumes "i \<in> seenFillIds (fst (processFills a fs st)) b" and "i \<notin> seenFillIds st b"
  shows "(b, i) \<in> set (aggregatedKeys (snd (processFills a fs st)))"
  using assms
proof (induction fs arbitrary: st)
  case Nil
  then show ?case by simp
next
  case (Cons f fs)
  show ?case
  proof (cases "i \<in> seenFillIds (fst (processFill a f st)) b")
    case True
    with Cons.prems(2) have "b = a" and "i = fill_id f" and "fill_id f \<notin> seenFillIds st a"
      by (auto simp add: processFill_seen split: if_splits)
    then show ?thesis
      by (simp add: split_beta Let_def aggregatedKeys_def processFill_pushed)
  next
    case False
    from Cons.prems(1) have "i \<in> seenFillIds (fst (processFills a fs (fst (processFill a f st)))) b"
      by (simp add: split_beta Let_def)
    from Cons.IH [OF this False] show ?thesis
      by (simp add: split_beta Let_def aggregatedKeys_append)
  qed
qed

lemma pollAddresses_seen_mono:
  "seenFillIds st b \<subseteq> seenFillIds (fst (pollAddresses env k as st)) b"
  using pollAddresses_fresh [of st env k as] by (simp add: fresh_def)

lemma pollAddresses_new_pushed:
  assumes "i \<in> seenFillIds (fst (pollAddresses env k as st)) b" and "i \<notin> seenFillIds st b"
  shows "(b, i) \<in> set (aggregatedKeys (fst (snd (pollAddresses env k as st))))"
  using assms
proof (induction as arbitrary: st k)
  case Nil
  then show ?case by simp
next
  case (Cons a as)
  let ?st1 = "st\<lparr>seenFillIdsByAddress := (seenFillIdsByAddress st)(a \<mapsto> seenFillIds st a)\<rparr>"
  have unseen1: "i \<notin> seenFillIds ?st1 b"
    using Cons.prems(2) by (simp only: seen_init_seen) simp
  show ?case
  proof (cases "gamma_fetch env k a (lastTimestampMs st a)")
    case (Inl err)
    with Cons.prems(1) have "i \<in> seenFillIds (fst (pollAddresses env (Suc k) as ?st1)) b"
      by (simp add: split_beta Let_def)
    from Cons.IH [OF this unseen1] Inl show ?thesis
      by (simp add: split_beta Let_def)
  next
    case (Inr fills)
    let ?st2 = "fst (processFills a fills ?st1)"
    from Inr Cons.prems(1) have later: "i \<in> seenFillIds (fst (pollAddresses env (Suc k) as ?st2)) b"
      by (simp add: split_beta Let_def)
    show ?thesis
    proof (cases "i \<in> seenFillIds ?st2 b")
      case True
      from processFills_new_pushed [OF True unseen1] Inr show ?thesis
        by (simp add: split_beta Let_def aggregatedKeys_append)
    next
      case False
      from Cons.IH [OF later False] Inr show ?thesis
        by (simp add: split_beta Let_def aggregatedKeys_append)
    qed
  qed
qed

lemma pollAddresses_delivered_seen:
  assumes "i < length as"
    and "gamma_fetch env (k + i) (fst (fetchCalls (snd (snd (pollAddresses env k as st))) ! i))
           (snd (fetchCalls (snd (snd (pollAddresses env k as st))) ! i)) = Inr fills"
    and "f \<in> set fills"
  shows "fill_id f \<in> seenFillIds (fst (pollAddresses env k as st)) (as ! i)"
  using assms(1,2)
proof (induction as arbitrary: st k i)
  case Nil
  then show ?case by simp
next
  case (Cons a as)
  let ?st1 = "st\<lparr>seenFillIdsByAddress := (seenFillIdsByAddress st)(a \<mapsto> seenFillIds st a)\<rparr>"
  show ?case
  proof (cases i)
    case 0
    with Cons.prems(2) have got: "gamma_fetch env k a (lastTimestampMs st a) = Inr fills"
      by (auto simp add: split_beta Let_def fetchCalls_append split: sum.splits)
    let ?st2 = "fst (processFills a fills ?st1)"
    have "fill_id f \<in> seenFillIds ?st2 a"
      using assms(3) by (simp add: processFills_seen)
    then have "fill_id f \<in> seenFillIds (fst (pollAddresses env (Suc k) as ?st2)) a"
      using pollAddresses_seen_mono by blast
    with got 0 show ?thesis
      by (simp add: split_beta Let_def)
  next
    case (Suc j)
    show ?thesis
    proof (cases "gamma_fetch env k a (lastTimestampMs st a)")
      case (Inl err)
      from Cons.prems Suc Inl
      have "fill_id f \<in> seenFillIds (fst (pollAddresses env (Suc k) as ?st1)) (as ! j)"
        by (intro Cons.IH [of j]) (simp_all add: split_beta Let_def)
      then show ?thesis using Inl Suc by (simp add: split_beta Let_def)
    next
      case (Inr got)
      let ?st2 = "fst (processFills a got ?st1)"
      from Cons.prems Suc Inr
      have "fill_id f \<in> seenFillIds (fst (pollAddresses env (Suc k) as ?st2)) (as ! j)"
        by (intro Cons.IH [of j]) (simp_all add: split_beta Let_def)
      then show ?thesis using Inr Suc by (simp add: split_beta Let_def)
    qed
  qed
qed

lemma submitAll_all:
  assumes "\<forall>j < length agg. \<exists>tx. mk_mirror env (k + j) (mirrorRequest (times env) s (fst (agg ! j))) = Inr tx"
  shows "submitted (fst (submitAll s env k agg)) = aggregatedKeys agg \<and>
         snd (submitAll s env k agg) = None"
  using assms
proof (induction agg arbitrary: k)
  case Nil
  show ?case by (simp add: aggregatedKeys_def)
next
  case (Cons fa agg)
  obtain f a where fa: "fa = (f, a)" by (cases fa)
  from Cons.prems fa obtain tx where tx: "mk_mirror env k (mirrorRequest (times env) s f) = Inr tx"
    by fastforce
  have "\<forall>j < length agg. \<exists>tx. mk_mirror env (Suc k + j) (mirrorRequest (times env) s (fst (agg ! j))) = Inr tx"
  proof (intro allI impI)
    fix j assume "j < length agg"
    then have "Suc j < length (fa # agg)" by simp
    with Cons.prems
    have "\<exists>tx. mk_mirror env (k + Suc j) (mirrorRequest (times env) s (fst ((fa # agg) ! Suc j))) = Inr tx"
      by blast
    then show "\<exists>tx. mk_mirror env (Suc k + j) (mirrorRequest (times env) s (fst (agg ! j))) = Inr tx"
      by simp
  qed
  from Cons.IH [OF this] fa tx show ?case
    by (simp add: split_beta Let_def aggregatedKeys_def)
qed

lemma submitAll_first:
  "agg \<noteq> [] \<Longrightarrow> \<exists>m. submitted (fst (submitAll s env k agg)) = take (Suc m) (aggregatedKeys agg)"
proof (cases agg)
  case Nil
  assume "agg \<noteq> []"
  with Nil show ?thesis by simp
next
  case (Cons fa rest)
  obtain f a where fa: "fa = (f, a)" by (cases fa)
  show ?thesis
  proof (cases "mk_mirror env k (mirrorRequest (times env) s f)")
    case (Inl err)
    with Cons fa have "submitted (fst (submitAll s env k agg)) = take (Suc 0) (aggregatedKeys agg)"
      by (simp add: aggregatedKeys_def)
    then show ?thesis ..
  next
    case (Inr tx)
    from submitAll_submitted [of s env "Suc k" rest] obtain n
      where "submitted (fst (submitAll s env (Suc k) rest)) = take n (aggregatedKeys rest)" ..
    with Cons fa Inr
    have "submitted (fst (submitAll s env k agg)) = take (Suc n) (aggregatedKeys agg)"
      by (simp add: aggregatedKeys_def split_beta Let_def)
    then show ?thesis ..
  qed
qed

lemma tick_submitted:
  assumes "running st"
  shows "submitted (fst (snd (tick s env st))) =
           (if aggregatedOf s env st = [] \<or> mk_approve env \<noteq> None then []
            else submitted (fst (submitAll s env 0 (aggregatedOf s env st))))"
    and "aggregatedOf s env st \<noteq> [] \<Longrightarrow> mk_approve env = None \<Longrightarrow>
           snd (snd (tick s env st)) = snd (submitAll s env 0 (aggregatedOf s env st))"
  using assms
  by (auto simp add: tick_def aggregatedOf_def split_beta Let_def submitted_append
        pollAddresses_submitted split: option.splits)

lemma tick_none_aggregated:
  "running st \<Longrightarrow> aggregatedOf s env st = [] \<Longrightarrow> snd (snd (tick s env st)) = None"
  by (simp add: tick_def aggregatedOf_def split_beta Let_def)

lemma poll_two_addresses:
  assumes "gamma_fetch env 0 A (lastTimestampMs st A) = Inl e"
    and "gamma_fetch env (Suc 0) B (lastTimestampMs st B) = Inr [f]"
    and "fill_id f \<notin> seenFillIds st B"
  shows "snd (pollAddresses env 0 [A, B] st) =
      ([(f, B)],
       [Log (Checking (take 6 A) (lastTimestampMs st A)), FetchCall A (lastTimestampMs st A),
        ReportError (message e),
        Log (Checking (take 6 B) (lastTimestampMs st B)), FetchCall B (lastTimestampMs st B),
        Log (Found 1 (take 6 B))])"
proof -
  let ?st1 = "st\<lparr>seenFillIdsByAddress := (seenFillIdsByAddress st)(A \<mapsto> seenFillIds st A)\<rparr>"
  let ?st2 = "?st1\<lparr>seenFillIdsByAddress := (seenFillIdsByAddress ?st1)(B \<mapsto> seenFillIds ?st1 B)\<rparr>"
  have since: "lastTimestampMs ?st1 B = lastTimestampMs st B"
    by (rule seen_init_cursor)
  have "seenFillIds ?st2 B = seenFillIds ?st1 B"
    by (rule seen_init_seen)
  also have "\<dots> = seenFillIds st B"
    by (rule seen_init_seen)
  finally have unseen: "fill_id f \<notin> seenFillIds ?st2 B"
    using assms(3) by simp
  have pushed: "snd (processFill B f ?st2) = [(f, B)]"
    using unseen by (simp only: processFill_pushed if_False)
  show ?thesis
    using assms(1,2) pushed since
    by (simp add: split_beta Let_def)
qed

lemma pollAddresses_healed:
  "fst (pollAddresses (healed env) k as st) = fst (pollAddresses env k as st) \<and>
   fst (snd (pollAddresses (healed env) k as st)) = fst (snd (pollAddresses env k as st))"
proof (induction as arbitrary: st k)
  case Nil
  show ?case by simp
next
  case (Cons a as)
  show ?case
  proof (cases "gamma_fetch env k a (lastTimestampMs st a)")
    case (Inl err)
    with Cons.IH show ?thesis
      by (simp add: healed_def split_beta Let_def)
  next
    case (Inr fills)
    with Cons.IH show ?thesis
      by (simp add: healed_def split_beta Let_def)
  qed
qed

lemma submitAll_healed: "submitAll s (healed env) k agg = submitAll s env k agg"
  by (induction agg arbitrary: k) (auto simp add: healed_def split_beta Let_def split: sum.splits)

lemma tick_healed:
  "fst (tick s env st) = fst (tick s (healed env) st) \<and>
   aggregatedOf s env st = aggregatedOf s (healed env) st \<and>
   submitted (fst (snd (tick s env st))) = submitted (fst (snd (tick s (healed env) st))) \<and>
   snd (snd (tick s env st)) = snd (snd (tick s (healed env) st))"
proof -
  have approve: "mk_approve (healed env) = mk_approve env"
    by (simp add: healed_def)
  show ?thesis
    using pollAddresses_healed [of env 0 "targetAddresses s" st]
    by (simp add: tick_def aggregatedOf_def split_beta Let_def submitted_append
          pollAddresses_submitted submitAll_healed approve split: option.splits)
qed

text \<open>
  Claim C7, as the code has it. In a tick of a running service every watched address is
  fetched, in the order of \<open>targetAddresses\<close>, whichever fetches fail, and the error of every
  fetch that fails is reported. Every fill that a fetch returns, for whichever address and
  whichever other fetches fail, has its id in the seen set of its address after the tick,
  and if the id was not seen before the tick it is among the aggregated entries; the
  state after the tick, the aggregated entries, the submissions and the outcome of the
  tick are those of the tick in which every failing fetch returns no fills instead. The
  submission loop runs over the aggregated entries in order: unless \<open>ensureApprovals\<close>
  rejects it submits at least the first, and all of them without a rejection of the tick
  when no submission throws; when \<open>ensureApprovals\<close> rejects, the tick submits nothing.
  So with two watched addresses \<open>A\<close> and \<open>B\<close>, when the fetch for \<open>A\<close> throws and the fetch
  for \<open>B\<close> returns one unseen fill, the error of \<open>A\<close> is reported, that fill is the one
  aggregated entry, and unless \<open>ensureApprovals\<close> rejects exactly one order is submitted,
  the one for the fill of \<open>B\<close>.
\<close>

theorem fetch_failure_isolated:
  "running st \<longrightarrow>
     map fst (fetchCalls (fst (snd (tick s env st)))) = targetAddresses s \<and>
     (\<forall>i < length (targetAddresses s). \<forall>e.
        gamma_fetch env i (fst (fetchCalls (fst (snd (tick s env st))) ! i))
                          (snd (fetchCalls (fst (snd (tick s env st))) ! i)) = Inl e
        \<longrightarrow> ReportError (message e) \<in> set (fst (snd (tick s env st)))) \<and>
     (\<forall>i < length (targetAddresses s). \<forall>fills.
        gamma_fetch env i (fst (fetchCalls (fst (snd (tick s env st))) ! i))
                          (snd (fetchCalls (fst (snd (tick s env st))) ! i)) = Inr fills
        \<longrightarrow> (\<forall>f \<in> set fills.
               fill_id f \<in> seenFillIds (fst (tick s env st)) (targetAddresses s ! i) \<and>
               (fill_id f \<notin> seenFillIds st (targetAddresses s ! i) \<longrightarrow>
                  (targetAddresses s ! i, fill_id f) \<in> set (aggregatedKeys (aggregatedOf s env st))))) \<and>
     fst (tick s env st) = fst (tick s (healed env) st) \<and>
     aggregatedOf s env st = aggregatedOf s (healed env) st \<and>
     submitted (fst (snd (tick s env st))) = submitted (fst (snd (tick s (healed env) st))) \<and>
     snd (snd (tick s env st)) = snd (snd (tick s (healed env) st)) \<and>
     (mk_approve env = None \<and> aggregatedOf s env st \<noteq> [] \<longrightarrow>
        (\<exists>m. submitted (fst (snd (tick s env st))) = take (Suc m) (aggregatedKeys (aggregatedOf s env st)))) \<and>
     (mk_approve env = None \<and>
      (\<forall>k < length (aggregatedOf s env st).
         \<exists>tx. mk_mirror env k (mirrorRequest (times env) s (fst (aggregatedOf s env st ! k))) = Inr tx)
      \<longrightarrow> submitted (fst (snd (tick s env st))) = aggregatedKeys (aggregatedOf s env st) \<and>
          snd (snd (tick s env st)) = None) \<and>
     (mk_approve env \<noteq> None \<longrightarrow> submitted (fst (snd (tick s env st))) = []) \<and>
     (targetAddresses s = [A, B] \<and>
      gamma_fetch env 0 A (lastTimestampMs st A) = Inl err \<and>
      gamma_fetch env (Suc 0) B (lastTimestampMs st B) = Inr [f] \<and>
      fill_id f \<notin> seenFillIds st B
      \<longrightarrow> ReportError (message err) \<in> set (fst (snd (tick s env st))) \<and>
          aggregatedOf s env st = [(f, B)] \<and>
          (mk_approve env = None \<longrightarrow> submitted (fst (snd (tick s env st))) = [(B, fill_id f)]))"
proof (intro impI)
  assume r: "running st"
  let ?p = "pollAddresses env 0 (targetAddresses s) st"
  let ?E = "fst (snd (tick s env st))"
  let ?agg = "aggregatedOf s env st"
  have calls: "fetchCalls ?E = fetchCalls (snd (snd ?p))"
    using r by (rule tick_fetchCalls)
  have state: "fst (tick s env st) = fst ?p"
    using r by (simp add: tick_state)
  have all: "map fst (fetchCalls ?E) = targetAddresses s"
    by (simp add: calls pollAddresses_fetches_all)
  have len: "length (fetchCalls (snd (snd ?p))) = length (targetAddresses s)"
    using pollAddresses_fetches_all [of env 0 "targetAddresses s" st]
    by (metis length_map)
  have reported: "ReportError (message e) \<in> set ?E"
    if "i < length (targetAddresses s)"
      and "gamma_fetch env i (fst (fetchCalls ?E ! i)) (snd (fetchCalls ?E ! i)) = Inl e" for i e
  proof -
    have "ReportError (message e) \<in> set (snd (snd ?p))"
      using that len
      by (intro pollAddresses_reports [of i env 0]) (simp_all add: calls)
    then show ?thesis
      using tick_effects_prefix [OF r, of env s] by blast
  qed
  have processed:
    "fill_id f \<in> seenFillIds (fst (tick s env st)) (targetAddresses s ! i) \<and>
     (fill_id f \<notin> seenFillIds st (targetAddresses s ! i) \<longrightarrow>
        (targetAddresses s ! i, fill_id f) \<in> set (aggregatedKeys ?agg))"
    if "i < length (targetAddresses s)"
      and "gamma_fetch env i (fst (fetchCalls ?E ! i)) (snd (fetchCalls ?E ! i)) = Inr fills"
      and "f \<in> set fills" for i fills f
  proof -
    have seen: "fill_id f \<in> seenFillIds (fst ?p) (targetAddresses s ! i)"
      using that
      by (intro pollAddresses_delivered_seen [of i "targetAddresses s" env 0 st fills])
         (simp_all add: calls)
    moreover have "(targetAddresses s ! i, fill_id f) \<in> set (aggregatedKeys ?agg)"
      if "fill_id f \<notin> seenFillIds st (targetAddresses s ! i)"
      using pollAddresses_new_pushed [OF seen that] by (simp add: aggregatedOf_def)
    ultimately show ?thesis by (simp add: state)
  qed
  have some: "\<exists>m. submitted ?E = take (Suc m) (aggregatedKeys ?agg)"
    if "mk_approve env = None \<and> ?agg \<noteq> []"
    using that submitAll_first [of ?agg s env 0] by (simp add: tick_submitted(1) [OF r])
  have every: "submitted ?E = aggregatedKeys ?agg \<and> snd (snd (tick s env st)) = None"
    if h: "mk_approve env = None \<and>
      (\<forall>k < length ?agg. \<exists>tx. mk_mirror env k (mirrorRequest (times env) s (fst (?agg ! k))) = Inr tx)"
  proof (cases "?agg = []")
    case True
    with r show ?thesis
      by (simp add: tick_submitted(1) tick_none_aggregated aggregatedKeys_def)
  next
    case False
    from h have "\<forall>j < length ?agg.
        \<exists>tx. mk_mirror env (0 + j) (mirrorRequest (times env) s (fst (?agg ! j))) = Inr tx"
      by simp
    from submitAll_all [OF this] False h r show ?thesis
      by (simp add: tick_submitted)
  qed
  have rejected: "submitted ?E = []" if "mk_approve env \<noteq> None"
    using that by (simp add: tick_submitted(1) [OF r])
  have scenario: "ReportError (message err) \<in> set ?E \<and> ?agg = [(f, B)] \<and>
      (mk_approve env = None \<longrightarrow> submitted ?E = [(B, fill_id f)])"
    if h: "targetAddresses s = [A, B] \<and>
      gamma_fetch env 0 A (lastTimestampMs st A) = Inl err \<and>
      gamma_fetch env (Suc 0) B (lastTimestampMs st B) = Inr [f] \<and>
      fill_id f \<notin> seenFillIds st B"
  proof -
    from h poll_two_addresses [of env A st err B f]
    have poll: "snd (pollAddresses env 0 (targetAddresses s) st) =
      ([(f, B)],
       [Log (Checking (take 6 A) (lastTimestampMs st A)), FetchCall A (lastTimestampMs st A),
        ReportError (message err),
        Log (Checking (take 6 B) (lastTimestampMs st B)), FetchCall B (lastTimestampMs st B),
        Log (Found 1 (take 6 B))])"
      by simp
    then have agg: "?agg = [(f, B)]"
      by (simp add: aggregatedOf_def)
    from poll have "ReportError (message err) \<in> set (snd (snd ?p))"
      by simp
    then have rep: "ReportError (message err) \<in> set ?E"
      using tick_effects_prefix [OF r, of env s] by blast
    have "submitted ?E = [(B, fill_id f)]" if "mk_approve env = None"
    proof -
      from some that agg obtain m where "submitted ?E = take (Suc m) (aggregatedKeys [(f, B)])"
        by auto
      then show ?thesis by (simp add: aggregatedKeys_def)
    qed
    with agg rep show ?thesis by blast
  qed
  note same = tick_healed [of s env st]
  from all reported processed some every rejected scenario same
  show "map fst (fetchCalls ?E) = targetAddresses s \<and>
     (\<forall>i < length (targetAddresses s). \<forall>e.
        gamma_fetch env i (fst (fetchCalls ?E ! i)) (snd (fetchCalls ?E ! i)) = Inl e
        \<longrightarrow> ReportError (message e) \<in> set ?E) \<and>
     (\<forall>i < length (targetAddresses s). \<forall>fills.
        gamma_fetch env i (fst (fetchCalls ?E ! i)) (snd (fetchCalls ?E ! i)) = Inr fills
        \<longrightarrow> (\<forall>f \<in> set fills.
               fill_id f \<in> seenFillIds (fst (tick s env st)) (targetAddresses s ! i) \<and>
               (fill_id f \<notin> seenFillIds st (targetAddresses s ! i) \<longrightarrow>
                  (targetAddresses s ! i, fill_id f) \<in> set (aggregatedKeys ?agg)))) \<and>
     fst (tick s env st) = fst (tick s (healed env) st) \<and>
     ?agg = aggregatedOf s (healed env) st \<and>
     submitted ?E = submitted (fst (snd (tick s (healed env) st))) \<and>
     snd (snd (tick s env st)) = snd (snd (tick s (healed env) st)) \<and>
     (mk_approve env = None \<and> ?agg \<noteq> [] \<longrightarrow>
        (\<exists>m. submitted ?E = take (Suc m) (aggregatedKeys ?agg))) \<and>
     (mk_approve env = None \<and>
      (\<forall>k < length ?agg.
         \<exists>tx. mk_mirror env k (mirrorRequest (times env) s (fst (?agg ! k))) = Inr tx)
      \<longrightarrow> submitted ?E = aggregatedKeys ?agg \<and> snd (snd (tick s env st)) = None) \<and>
     (mk_approve env \<noteq> None \<longrightarrow> submitted ?E = []) \<and>
     (targetAddresses s = [A, B] \<and>
      gamma_fetch env 0 A (lastTimestampMs st A) = Inl err \<and>
      gamma_fetch env (Suc 0) B (lastTimestampMs st B) = Inr [f] \<and>
      fill_id f \<notin> seenFillIds st B
      \<longrightarrow> ReportError (message err) \<in> set ?E \<and> ?agg = [(f, B)] \<and>
          (mk_approve env = None \<longrightarrow> submitted ?E = [(B, fill_id f)]))"
    by blast
qed

lemma three_calls:
  "fetchCalls (fst (snd (tick threeAddresses secondFetchFails runningService))) =
     [(''0xA'', Numeric (Num 0)), (''0xB'', Numeric (Num 0)), (''0xC'', Numeric (Num 0))]"
  by code_simp

lemma three_aggregated:
  "aggregatedKeys (aggregatedOf threeAddresses secondFetchFails runningService) =
     [(''0xA'', ''f1''), (''0xC'', ''f2''), (''0xC'', ''f3'')]"
  by code_simp

lemma second_fetch_fails_env:
  "gamma_fetch secondFetchFails (Suc 0) ''0xB'' (Numeric (Num 0)) = Inl (AxiosError ''Network Error'')"
  "gamma_fetch secondFetchFails (Suc (Suc 0)) ''0xC'' (Numeric (Num 0)) =
     Inr [demoFill ''f2'' Buy 10 150, demoFill ''f3'' Sell 10 200]"
  "mk_approve secondFetchFails = None"
  "\<exists>tx. mk_mirror secondFetchFails k req = Inr tx"
  by (simp_all add: secondFetchFails_def scriptedTick_def)

lemma first_fetch_fails_env:
  "gamma_fetch firstFetchFails 0 ''0xA'' (Numeric (Num 0)) = Inl (AxiosError ''Network Error'')"
  "gamma_fetch firstFetchFails (Suc 0) ''0xB'' (Numeric (Num 0)) = Inr [demoFill ''f1'' Buy 10 100]"
  "mk_approve firstFetchFails = None"
  "mk_approve approvalsReject \<noteq> None"
  by (simp_all add: firstFetchFails_def approvalsReject_def scriptedTick_def)

lemma running_service:
  "running runningService"
  "lastTimestampMs runningService ''0xA'' = Numeric (Num 0)"
  "lastTimestampMs runningService ''0xB'' = Numeric (Num 0)"
  "seenFillIds runningService a = {}"
  by (simp_all add: runningService_def newService_def lastTimestampMs_def getTimestamp_def
        objectPrototypeKeys_def seenFillIds_def)

theorem fetch_failure_isolated_witness:
  "running runningService \<and>
   map fst (fetchCalls (fst (snd (tick threeAddresses secondFetchFails runningService))))
     = [''0xA'', ''0xB'', ''0xC''] \<and>
   ReportError ''Network Error'' \<in> set (fst (snd (tick threeAddresses secondFetchFails runningService))) \<and>
   ''f3'' \<in> seenFillIds (fst (tick threeAddresses secondFetchFails runningService)) ''0xC'' \<and>
   (''0xC'', ''f3'') \<in> set (aggregatedKeys (aggregatedOf threeAddresses secondFetchFails runningService)) \<and>
   submitted (fst (snd (tick threeAddresses secondFetchFails runningService)))
     = [(''0xA'', ''f1''), (''0xC'', ''f2''), (''0xC'', ''f3'')] \<and>
   snd (snd (tick threeAddresses secondFetchFails runningService)) = None \<and>
   submitted (fst (snd (tick twoAddresses approvalsReject runningService))) = [] \<and>
   ReportError ''Network Error'' \<in> set (fst (snd (tick twoAddresses firstFetchFails runningService))) \<and>
   submitted (fst (snd (tick twoAddresses firstFetchFails runningService))) = [(''0xB'', ''f1'')]"
proof -
  note r = running_service(1)
  let ?T = "tick threeAddresses secondFetchFails runningService"
  let ?E = "fst (snd ?T)"
  have t3: "targetAddresses threeAddresses = [''0xA'', ''0xB'', ''0xC'']"
    by (simp add: threeAddresses_def demoSettings_def)
  have t2: "targetAddresses twoAddresses = [''0xA'', ''0xB'']"
    by (simp add: twoAddresses_def demoSettings_def)
  from fetch_failure_isolated [of runningService threeAddresses secondFetchFails] r
  have fetched: "map fst (fetchCalls ?E) = targetAddresses threeAddresses"
    and reports: "\<forall>i < length (targetAddresses threeAddresses). \<forall>e.
        gamma_fetch secondFetchFails i (fst (fetchCalls ?E ! i)) (snd (fetchCalls ?E ! i)) = Inl e
        \<longrightarrow> ReportError (message e) \<in> set ?E"
    and processed: "\<forall>i < length (targetAddresses threeAddresses). \<forall>fills.
        gamma_fetch secondFetchFails i (fst (fetchCalls ?E ! i)) (snd (fetchCalls ?E ! i)) = Inr fills
        \<longrightarrow> (\<forall>f \<in> set fills.
               fill_id f \<in> seenFillIds (fst ?T) (targetAddresses threeAddresses ! i) \<and>
               (fill_id f \<notin> seenFillIds runningService (targetAddresses threeAddresses ! i) \<longrightarrow>
                  (targetAddresses threeAddresses ! i, fill_id f)
                    \<in> set (aggregatedKeys (aggregatedOf threeAddresses secondFetchFails runningService))))"
    and every: "mk_approve secondFetchFails = None \<and>
      (\<forall>k < length (aggregatedOf threeAddresses secondFetchFails runningService).
         \<exists>tx. mk_mirror secondFetchFails k
                (mirrorRequest (times secondFetchFails) threeAddresses
                   (fst (aggregatedOf threeAddresses secondFetchFails runningService ! k))) = Inr tx)
      \<longrightarrow> submitted ?E = aggregatedKeys (aggregatedOf threeAddresses secondFetchFails runningService) \<and>
          snd (snd ?T) = None"
    by blast+
  have a: "map fst (fetchCalls ?E) = [''0xA'', ''0xB'', ''0xC'']"
    using fetched t3 by simp
  have lt1: "Suc 0 < length (targetAddresses threeAddresses)"
    and lt2: "Suc (Suc 0) < length (targetAddresses threeAddresses)"
    by (simp_all add: t3)
  have fails: "gamma_fetch secondFetchFails (Suc 0) (fst (fetchCalls ?E ! Suc 0))
          (snd (fetchCalls ?E ! Suc 0)) = Inl (AxiosError ''Network Error'')"
    by (simp add: three_calls second_fetch_fails_env)
  from reports [rule_format, OF lt1 fails]
  have b: "ReportError ''Network Error'' \<in> set ?E"
    by simp
  have delivers: "gamma_fetch secondFetchFails (Suc (Suc 0)) (fst (fetchCalls ?E ! Suc (Suc 0)))
          (snd (fetchCalls ?E ! Suc (Suc 0)))
          = Inr [demoFill ''f2'' Buy 10 150, demoFill ''f3'' Sell 10 200]"
    by (simp add: three_calls second_fetch_fails_env)
  have "demoFill ''f3'' Sell 10 200 \<in> set [demoFill ''f2'' Buy 10 150, demoFill ''f3'' Sell 10 200]"
    by simp
  from processed [rule_format, OF lt2 delivers this]
  have c: "''f3'' \<in> seenFillIds (fst ?T) ''0xC'' \<and>
      (''0xC'', ''f3'') \<in> set (aggregatedKeys (aggregatedOf threeAddresses secondFetchFails runningService))"
    by (simp add: t3 demoFill_def running_service)
  from every have d: "submitted ?E = [(''0xA'', ''f1''), (''0xC'', ''f2''), (''0xC'', ''f3'')] \<and>
      snd (snd ?T) = None"
    by (simp add: second_fetch_fails_env three_aggregated)
  from fetch_failure_isolated [of runningService twoAddresses approvalsReject] r first_fetch_fails_env(4)
  have e: "submitted (fst (snd (tick twoAddresses approvalsReject runningService))) = []"
    by blast
  from fetch_failure_isolated [of runningService twoAddresses firstFetchFails "''0xA''" "''0xB''"
         "AxiosError ''Network Error''" "demoFill ''f1'' Buy 10 100"] r
  have "targetAddresses twoAddresses = [''0xA'', ''0xB''] \<and>
      gamma_fetch firstFetchFails 0 ''0xA'' (lastTimestampMs runningService ''0xA'')
        = Inl (AxiosError ''Network Error'') \<and>
      gamma_fetch firstFetchFails (Suc 0) ''0xB'' (lastTimestampMs runningService ''0xB'')
        = Inr [demoFill ''f1'' Buy 10 100] \<and>
      fill_id (demoFill ''f1'' Buy 10 100) \<notin> seenFillIds runningService ''0xB''
      \<longrightarrow> ReportError (message (AxiosError ''Network Error''))
            \<in> set (fst (snd (tick twoAddresses firstFetchFails runningService))) \<and>
          aggregatedOf twoAddresses firstFetchFails runningService
            = [(demoFill ''f1'' Buy 10 100, ''0xB'')] \<and>
          (mk_approve firstFetchFails = None \<longrightarrow>
             submitted (fst (snd (tick twoAddresses firstFetchFails runningService)))
               = [(''0xB'', fill_id (demoFill ''f1'' Buy 10 100))])"
    by blast
  with t2 first_fetch_fails_env(1,2,3) running_service
  have "ReportError (message (AxiosError ''Network Error''))
          \<in> set (fst (snd (tick twoAddresses firstFetchFails runningService))) \<and>
        submitted (fst (snd (tick twoAddresses firstFetchFails runningService)))
          = [(''0xB'', fill_id (demoFill ''f1'' Buy 10 100))]"
    by simp
  then have f: "ReportError ''Network Error'' \<in> set (fst (snd (tick twoAddresses firstFetchFails runningService))) \<and>
      submitted (fst (snd (tick twoAddresses firstFetchFails runningService))) = [(''0xB'', ''f1'')]"
    by (simp add: demoFill_def)
  from r a b c d e f show ?thesis by blast
qed

text \<open>
  Claim C7 as stated fails: with the fetch for \<open>0xA\<close> failing and the fetch for \<open>0xB\<close>
  returning one new fill, a rejection of \<open>ensureApprovals\<close> ends the tick before the
  submission loop. The error of \<open>0xA\<close> is reported and the fill of \<open>0xB\<close> is aggregated, but
  no order is submitted for it.
\<close>

theorem approvals_rejection_prevents_submission:
  "ReportError ''Network Error'' \<in> set (fst (snd (tick twoAddresses approvalsReject runningService))) \<and>
   aggregatedKeys (aggregatedOf twoAddresses approvalsReject runningService) = [(''0xB'', ''f1'')] \<and>
   submitted (fst (snd (tick twoAddresses approvalsReject runningService))) = [] \<and>
   snd (snd (tick twoAddresses approvalsReject runningService)) = Some (Error ''approval failed'')"
  by code_simp

lemma submitAll_stops_at_failure:
  "mk_mirror env k (mirrorRequest (times env) s f) = Inl err \<Longrightarrow>
   submitAll s env k ((f, a) # rest) = ([Submit a f (mirrorRequest (times env) s f)], Some err)"
  by simp

text \<open>
  Claim C1, evaluated where it fails. One watched address delivers two new fills \<open>f1\<close> and
  \<open>f2\<close> in a tick and \<open>mirrorOrder\<close> throws for \<open>f1\<close>: the only submission of the tick is the
  one for \<open>f1\<close>, the tick ends with the report of that error, \<open>f2\<close> is in the seen set all
  the same, and a later tick that delivers \<open>f2\<close> again submits nothing for it.
\<close>

theorem submission_failure_drops_remaining_fills:
  "submitted (snd (runTick demoSettings firstSubmitFails runningService)) = [(''0xA'', ''f1'')] \<and>
   last (snd (runTick demoSettings firstSubmitFails runningService)) = ReportError ''Order failed: rejected'' \<and>
   ''f2'' \<in> seenFillIds (fst (runTick demoSettings firstSubmitFails runningService)) ''0xA'' \<and>
   submitted (snd (runTicks demoSettings [firstSubmitFails, redelivery] runningService)) = [(''0xA'', ''f1'')]"
  by code_simp

subsection \<open>\<open>start\<close>\<close>

text \<open>
  Claim C9. \<open>start\<close> on a running service changes nothing and has no effect. On a stopped
  service it sets \<open>running\<close>, keeps the handle of the one timer it arms, with the period
  \<open>pollIntervalMs\<close>, and calls \<open>tick\<close> once. A second \<open>start\<close> right after a first is
  without effect.
\<close>

theorem start_idempotent:
  "(running st \<longrightarrow> start s h st = (st, [])) \<and>
   (\<not> running st \<longrightarrow>
      fst (start s h st) = st\<lparr>running := True, intervalId := Some h\<rparr> \<and>
      snd (start s h st) =
        [SetInterval h (pollIntervalMs s), Log (Started (length (targetAddresses s))), InvokeTick] \<and>
      timersArmed (snd (start s h st)) = [pollIntervalMs s] \<and>
      ticksInvoked (snd (start s h st)) = 1) \<and>
   start s h' (fst (start s h st)) = (fst (start s h st), [])"
  by (simp add: start_def)

theorem start_idempotent_witness:
  "\<not> running newService \<and>
   running (fst (start demoSettings 1 newService)) \<and>
   timersArmed (snd (start demoSettings 1 newService)) = [15000] \<and>
   ticksInvoked (snd (start demoSettings 1 newService)) = 1 \<and>
   start demoSettings 2 (fst (start demoSettings 1 newService)) = (fst (start demoSettings 1 newService), [])"
  using start_idempotent [of newService demoSettings 1 2]
        start_idempotent [of "fst (start demoSettings 1 newService)" demoSettings 2 3]
  by (simp add: newService_def demoSettings_def)

subsection \<open>\<open>fetchFillsByAddress\<close>\<close>

lemma tryAttempts_first_success:
  assumes "n < length cs"
    and "\<forall>j<n. isl (attemptOutcome toFill (cs ! j) (http (k + j) (request g (cs ! j))))"
    and "\<not> isl (attemptOutcome toFill (cs ! n) (http (k + n) (request g (cs ! n))))"
  shows "tryAttempts toFill http g k cs lastError =
           (map (request g) (take (Suc n) cs),
            attemptOutcome toFill (cs ! n) (http (k + n) (request g (cs ! n))))"
  using assms
proof (induction cs arbitrary: k n lastError)
  case Nil
  then show ?case by simp
next
  case (Cons c cs)
  show ?case
  proof (cases n)
    case 0
    with Cons.prems(3) show ?thesis
      by (cases "attemptOutcome toFill c (http k (request g c))") simp_all
  next
    case (Suc m)
    from Cons.prems(2) Suc have "isl (attemptOutcome toFill c (http k (request g c)))"
      by fastforce
    then obtain err where err: "attemptOutcome toFill c (http k (request g c)) = Inl err"
      by (cases "attemptOutcome toFill c (http k (request g c))") simp_all
    have "tryAttempts toFill http g (Suc k) cs (Some err) =
           (map (request g) (take (Suc m) cs),
            attemptOutcome toFill (cs ! m) (http (Suc k + m) (request g (cs ! m))))"
    proof (rule Cons.IH)
      show "m < length cs" using Cons.prems(1) Suc by simp
      show "\<forall>j<m. isl (attemptOutcome toFill (cs ! j) (http (Suc k + j) (request g (cs ! j))))"
      proof (intro allI impI)
        fix j assume "j < m"
        then have "Suc j < n" using Suc by simp
        with Cons.prems(2) have "isl (attemptOutcome toFill ((c # cs) ! Suc j) (http (k + Suc j) (request g ((c # cs) ! Suc j))))"
          by blast
        then show "isl (attemptOutcome toFill (cs ! j) (http (Suc k + j) (request g (cs ! j))))"
          by simp
      qed
      show "\<not> isl (attemptOutcome toFill (cs ! m) (http (Suc k + m) (request g (cs ! m))))"
        using Cons.prems(3) Suc by simp
    qed
    with err Suc show ?thesis by simp
  qed
qed

lemma tryAttempts_all_fail:
  assumes "\<forall>j<length cs. isl (attemptOutcome toFill (cs ! j) (http (k + j) (request g (cs ! j))))"
    and "cs \<noteq> []"
  shows "tryAttempts toFill http g k cs lastError =
           (map (request g) cs,
            attemptOutcome toFill (last cs) (http (k + (length cs - 1)) (request g (last cs))))"
  using assms
proof (induction cs arbitrary: k lastError)
  case Nil
  then show ?case by simp
next
  case (Cons c cs)
  from Cons.prems(1) have "isl (attemptOutcome toFill c (http k (request g c)))"
    by fastforce
  then obtain err where err: "attemptOutcome toFill c (http k (request g c)) = Inl err"
    by (cases "attemptOutcome toFill c (http k (request g c))") simp_all
  show ?case
  proof (cases cs)
    case Nil
    with err show ?thesis by simp
  next
    case (Cons d ds)
    have "tryAttempts toFill http g (Suc k) cs (Some err) =
           (map (request g) cs,
            attemptOutcome toFill (last cs) (http (Suc k + (length cs - 1)) (request g (last cs))))"
    proof (rule Cons.IH)
      show "cs \<noteq> []" using Cons by simp
      show "\<forall>j<length cs. isl (attemptOutcome toFill (cs ! j) (http (Suc k + j) (request g (cs ! j))))"
      proof (intro allI impI)
        fix j assume "j < length cs"
        then have "Suc j < length (c # cs)" by simp
        with Cons.prems(1) have "isl (attemptOutcome toFill ((c # cs) ! Suc j) (http (k + Suc j) (request g ((c # cs) ! Suc j))))"
          by blast
        then show "isl (attemptOutcome toFill (cs ! j) (http (Suc k + j) (request g (cs ! j))))"
          by simp
      qed
    qed
    with err Cons show ?thesis by simp
  qed
qed

lemma length_attempts: "length (attempts g address sinceMs limit) = 10"
  by (simp add: attempts_def Let_def)

lemma last_attempts: "last (attempts g address sinceMs limit) = attempts g address sinceMs limit ! 9"
  by (simp add: attempts_def Let_def)

text \<open>
  Claim C5. There are ten candidates. If the candidate at position \<open>n\<close> is the first whose
  attempt does not fail, the call sends the requests of the candidates up to \<open>n\<close> and no
  other, and returns what the attempt at \<open>n\<close> gives; if all ten fail, all ten requests are
  sent and the call throws the error of the last one. An attempt fails with
  \<open>Unauthorized (401) from data source\<close> on status 401, with \<open>Not found (404)\<close> on status
  404 and with the transport's error when the request is rejected, three different
  errors; on any other status it maps the array that the candidate's own extractor finds
  in the body, and fails if there is no array or the mapping throws.
\<close>

theorem fetch_first_success:
  "length (attempts g address sinceMs limit) = 10 \<and>
   (\<forall>n<10. (\<forall>j<n. isl (candidateOutcome toFill http g address sinceMs limit j)) \<and>
            \<not> isl (candidateOutcome toFill http g address sinceMs limit n) \<longrightarrow>
      fetchFillsByAddress toFill http g address sinceMs limit =
        (map (request g) (take (Suc n) (attempts g address sinceMs limit)),
         candidateOutcome toFill http g address sinceMs limit n)) \<and>
   ((\<forall>j<10. isl (candidateOutcome toFill http g address sinceMs limit j)) \<longrightarrow>
      fetchFillsByAddress toFill http g address sinceMs limit =
        (map (request g) (attempts g address sinceMs limit),
         candidateOutcome toFill http g address sinceMs limit 9)) \<and>
   attemptOutcome toFill cand (Response 401 d) = Inl (Error ''Unauthorized (401) from data source'') \<and>
   attemptOutcome toFill cand (Response 404 d) = Inl (Error ''Not found (404)'') \<and>
   attemptOutcome toFill cand (Rejected m) = Inl (AxiosError m) \<and>
   (status \<noteq> 401 \<and> status \<noteq> 404 \<longrightarrow>
      attemptOutcome toFill cand (Response status d) =
        (case normalize cand d of
           JArr raw \<Rightarrow> mapThrowing toFill raw
         | _ \<Rightarrow> Inl (TypeError ''raw.map is not a function''))) \<and>
   Error ''Unauthorized (401) from data source'' \<noteq> Error ''Not found (404)'' \<and>
   Error ''Unauthorized (401) from data source'' \<noteq> AxiosError m \<and>
   Error ''Not found (404)'' \<noteq> AxiosError m"
proof -
  let ?cs = "attempts g address sinceMs limit"
  let ?out = "candidateOutcome toFill http g address sinceMs limit"
  have len: "length ?cs = 10" by (rule length_attempts)
  have out: "?out j = attemptOutcome toFill (?cs ! j) (http (0 + j) (request g (?cs ! j)))" for j
    by (simp add: candidateOutcome_def Let_def)
  have first: "fetchFillsByAddress toFill http g address sinceMs limit =
        (map (request g) (take (Suc n) ?cs), ?out n)"
    if "n < 10" and "\<forall>j<n. isl (?out j)" and "\<not> isl (?out n)" for n
    using tryAttempts_first_success [of n ?cs toFill http 0 g None] that len
    by (simp add: fetchFillsByAddress_def candidateOutcome_def Let_def)
  have none: "fetchFillsByAddress toFill http g address sinceMs limit = (map (request g) ?cs, ?out 9)"
    if "\<forall>j<10. isl (?out j)"
  proof -
    have ne: "?cs \<noteq> []" using len by auto
    have "tryAttempts toFill http g 0 ?cs None =
           (map (request g) ?cs,
            attemptOutcome toFill (last ?cs) (http (0 + (length ?cs - 1)) (request g (last ?cs))))"
      using that len by (intro tryAttempts_all_fail ne) (simp only: out)
    then show ?thesis
      by (simp add: fetchFillsByAddress_def len last_attempts out)
  qed
  have outcomes:
    "attemptOutcome toFill cand (Response 401 d) = Inl (Error ''Unauthorized (401) from data source'')"
    "attemptOutcome toFill cand (Response 404 d) = Inl (Error ''Not found (404)'')"
    "attemptOutcome toFill cand (Rejected m) = Inl (AxiosError m)"
    "status \<noteq> 401 \<and> status \<noteq> 404 \<longrightarrow>
      attemptOutcome toFill cand (Response status d) =
        (case normalize cand d of
           JArr raw \<Rightarrow> mapThrowing toFill raw
         | _ \<Rightarrow> Inl (TypeError ''raw.map is not a function''))"
    by (simp_all add: attemptOutcome_def)
  show ?thesis
    using len first none outcomes by simp
qed

theorem fetch_first_success_witness:
  "fetchFillsByAddress demoToFill thirdSucceeds demoGamma ''0xA'' (Some 150000) 50 =
     (map (request demoGamma) (take 3 (attempts demoGamma ''0xA'' (Some 150000) 50)),
      Inr [demoFill ''f1'' Buy 10 100]) \<and>
   fetchFillsByAddress demoToFill allNotFound demoGamma ''0xA'' (Some 150000) 50 =
     (map (request demoGamma) (attempts demoGamma ''0xA'' (Some 150000) 50),
      Inl (AxiosError ''timeout of 12000ms exceeded''))"
proof -
  let ?out = "candidateOutcome demoToFill thirdSucceeds demoGamma ''0xA'' (Some 150000) 50"
  let ?nf = "candidateOutcome demoToFill allNotFound demoGamma ''0xA'' (Some 150000) 50"
  have c0: "?out 0 = Inl (Error ''Not found (404)'')" by code_simp
  have c1: "?out (Suc 0) = Inl (Error ''Unauthorized (401) from data source'')" by code_simp
  have c2: "?out 2 = Inr [demoFill ''f1'' Buy 10 100]" by code_simp
  have before: "\<forall>j<2. isl (?out j)"
    using c0 c1 by (auto simp add: less_2_cases_iff)
  have third: "\<not> isl (?out 2)" using c2 by simp
  have n9: "?nf 9 = Inl (AxiosError ''timeout of 12000ms exceeded'')" by code_simp
  have nall: "\<forall>j<10. isl (?nf j)"
    by (simp add: candidateOutcome_def allNotFound_def attemptOutcome_def Let_def)
  have two: "(2::nat) < 10" by simp
  from fetch_first_success [of demoGamma "''0xA''" "Some 150000" 50 demoToFill thirdSucceeds]
  have "fetchFillsByAddress demoToFill thirdSucceeds demoGamma ''0xA'' (Some 150000) 50 =
     (map (request demoGamma) (take (Suc 2) (attempts demoGamma ''0xA'' (Some 150000) 50)), ?out 2)"
    using before third two by blast
  moreover
  from fetch_first_success [of demoGamma "''0xA''" "Some 150000" 50 demoToFill allNotFound]
  have "fetchFillsByAddress demoToFill allNotFound demoGamma ''0xA'' (Some 150000) 50 =
     (map (request demoGamma) (attempts demoGamma ''0xA'' (Some 150000) 50), ?nf 9)"
    using nall by blast
  ultimately show ?thesis
    using c2 n9 by simp
qed

subsection \<open>\<open>mirrorOrder\<close>\<close>

text \<open>
  Claim C6. In a dry run \<open>mirrorOrder\<close> makes no call, returns the token built from the
  order's market, outcome, side, size and price and from \<open>maxSlippageBps\<close>, and
  \<open>ensureApprovals\<close> makes no call either; two dry-run calls that agree on these six values
  return the same, whatever the venue, the other fields of the client and the order's
  \<open>outcomeIndex\<close> are.
\<close>

theorem dry_run_pure:
  "mk_dryRun mk \<longrightarrow>
     mirrorOrder fmt mk v order =
       ([], Inr (JStr (dryRunToken fmt order (mk_maxSlippageBps mk / 10000)))) \<and>
     fst (ensureApprovals mk v) = [] \<and>
     (\<forall>mk' v' order'.
        mk_dryRun mk' \<and> mk_maxSlippageBps mk' = mk_maxSlippageBps mk \<and>
        order_marketId order' = order_marketId order \<and>
        order_outcomeId order' = order_outcomeId order \<and>
        order_side order' = order_side order \<and>
        order_size order' = order_size order \<and>
        order_price order' = order_price order
        \<longrightarrow> mirrorOrder fmt mk' v' order' = mirrorOrder fmt mk v order)"
  by (simp add: mirrorOrder_def dryRunToken_def ensureApprovals_def)

lemma dry_token: "mirrorOrder demoFmt dryClient quietVenue demoOrder =
     ([], Inr (JStr ''dry-run:m:o:buy:15@0.5~slip:0.01''))"
  by code_simp

theorem dry_run_pure_witness:
  "mk_dryRun dryClient \<and>
   mirrorOrder demoFmt dryClient quietVenue demoOrder =
     ([], Inr (JStr ''dry-run:m:o:buy:15@0.5~slip:0.01'')) \<and>
   mirrorOrder demoFmt (dryClient\<lparr>mk_clob := False, mk_clobApiKey := Some ''k''\<rparr>) echoingVenue
       (demoOrder\<lparr>order_outcomeIndex := Some 1\<rparr>) =
     mirrorOrder demoFmt dryClient quietVenue demoOrder"
proof -
  have dry: "mk_dryRun dryClient"
    by (simp add: dryClient_def newPolymarketClient_def demoExecution_def)
  from dry_run_pure [of dryClient demoFmt quietVenue demoOrder] dry
  have same: "\<forall>mk' v' order'.
        mk_dryRun mk' \<and> mk_maxSlippageBps mk' = mk_maxSlippageBps dryClient \<and>
        order_marketId order' = order_marketId demoOrder \<and>
        order_outcomeId order' = order_outcomeId demoOrder \<and>
        order_side order' = order_side demoOrder \<and>
        order_size order' = order_size demoOrder \<and>
        order_price order' = order_price demoOrder
        \<longrightarrow> mirrorOrder demoFmt mk' v' order' = mirrorOrder demoFmt dryClient quietVenue demoOrder"
    by blast
  have "mirrorOrder demoFmt (dryClient\<lparr>mk_clob := False, mk_clobApiKey := Some ''k''\<rparr>) echoingVenue
       (demoOrder\<lparr>order_outcomeIndex := Some 1\<rparr>) =
     mirrorOrder demoFmt dryClient quietVenue demoOrder"
    using dry by (intro same [rule_format]) simp
  with dry dry_token show ?thesis by simp
qed

lemma coalesce_Some: "coalesce (Some v # xs) d = (if v = JNull then coalesce xs d else v)"
  by (cases v) simp_all

lemma coalesce_pair:
  "coalesce [x, y] (JStr ''submitted'') = JStr ''skipped:client-unavailable'' \<longleftrightarrow>
     x = Some (JStr ''skipped:client-unavailable'') \<or>
     ((x = None \<or> x = Some JNull) \<and> y = Some (JStr ''skipped:client-unavailable''))"
  by (cases x; cases y) (auto simp add: coalesce_Some)

lemma dryRunToken_not_skipped: "dryRunToken fmt order sl \<noteq> ''skipped:client-unavailable''"
  by (simp add: dryRunToken_def)

lemma postRaw_result:
  "snd (postRaw mk v order sl) =
     (case axios_post v (rawPayload order sl) of
        Inl err \<Rightarrow> Inl err
      | Inr tx \<Rightarrow> Inr (coalesce [optProp tx ''hash'', optProp tx ''transactionHash''] (JStr ''submitted'')))"
  by (simp add: postRaw_def Let_def split: sum.splits)

lemma postClob_result:
  "snd (postClob v order) =
     (case snd (ensureCreds v) of
        Some err \<Rightarrow> Inl err
      | None \<Rightarrow>
          (case clob_createOrder v (clobArgs order) of
             Inl err \<Rightarrow> Inl err
           | Inr built \<Rightarrow>
               (case clob_postOrder v built of
                  Inl err \<Rightarrow> Inl err
                | Inr resp \<Rightarrow>
                    Inr (coalesce [optProp resp ''orderId'', optProp resp ''hash''] (JStr ''submitted'')))))"
  by (simp add: postClob_def Let_def split: prod.splits option.splits sum.splits)

lemma mirrorOrder_result:
  "snd (mirrorOrder fmt mk v order) =
     (if mk_dryRun mk then Inr (JStr (dryRunToken fmt order (mk_maxSlippageBps mk / 10000)))
      else case (if \<not> mk_clob mk then snd (postRaw mk v order (mk_maxSlippageBps mk / 10000))
                 else snd (postClob v order)) of
             Inl err \<Rightarrow> Inl (Error (''Order failed: '' @ message err))
           | Inr res \<Rightarrow> Inr res)"
  by (simp add: mirrorOrder_def Let_def split: prod.splits sum.splits)

lemma mirrorOrder_skipped:
  "snd (mirrorOrder fmt mk v order) = Inr (JStr ''skipped:client-unavailable'') \<longleftrightarrow>
     \<not> mk_dryRun mk \<and>
     (if \<not> mk_clob mk
      then \<exists>tx. axios_post v (rawPayload order (mk_maxSlippageBps mk / 10000)) = Inr tx \<and>
                (optProp tx ''hash'' = Some (JStr ''skipped:client-unavailable'') \<or>
                 ((optProp tx ''hash'' = None \<or> optProp tx ''hash'' = Some JNull) \<and>
                  optProp tx ''transactionHash'' = Some (JStr ''skipped:client-unavailable'')))
      else snd (ensureCreds v) = None \<and>
           (\<exists>built resp. clob_createOrder v (clobArgs order) = Inr built \<and>
                clob_postOrder v built = Inr resp \<and>
                (optProp resp ''orderId'' = Some (JStr ''skipped:client-unavailable'') \<or>
                 ((optProp resp ''orderId'' = None \<or> optProp resp ''orderId'' = Some JNull) \<and>
                  optProp resp ''hash'' = Some (JStr ''skipped:client-unavailable'')))))"
proof (cases "mk_dryRun mk")
  case True
  then show ?thesis
    by (simp add: mirrorOrder_result dryRunToken_not_skipped)
next
  case live: False
  show ?thesis
  proof (cases "mk_clob mk")
    case False
    with live show ?thesis
      by (auto simp add: mirrorOrder_result postRaw_result coalesce_pair split: sum.splits)
  next
    case True
    with live show ?thesis
      by (auto simp add: mirrorOrder_result postClob_result coalesce_pair
            split: sum.splits option.splits)
  qed
qed

lemma mirrorOrder_throws:
  "snd (mirrorOrder fmt mk v order) = Inl err \<Longrightarrow> \<exists>m. err = Error (''Order failed: '' @ m)"
  by (auto simp add: mirrorOrder_def Let_def split: if_splits prod.splits sum.splits)

lemma pollAddresses_not_simulated:
  "e \<in> set (snd (snd (pollAddresses env k as st))) \<Longrightarrow> \<not> isSimulated e"
  by (induction as arbitrary: st k)
     (auto simp add: split_beta Let_def split: sum.splits)

lemma submitAll_not_simulated:
  assumes "\<forall>k req. mk_mirror env k req \<noteq> Inr (JStr ''skipped:client-unavailable'')"
  shows "e \<in> set (fst (submitAll s env k agg)) \<Longrightarrow> \<not> isSimulated e"
proof (induction agg arbitrary: k)
  case Nil
  then show ?case by simp
next
  case (Cons fa agg)
  obtain f a where fa: "fa = (f, a)" by (cases fa)
  show ?case
  proof (cases "mk_mirror env k (mirrorRequest (times env) s f)")
    case (Inl err)
    with Cons.prems fa show ?thesis by auto
  next
    case (Inr tx)
    with assms have "tx \<noteq> JStr ''skipped:client-unavailable''" by metis
    with Cons.prems fa Inr Cons.IH [of "Suc k"] show ?thesis
      by (auto simp add: split_beta Let_def)
  qed
qed

lemma tick_not_simulated:
  assumes "\<forall>k req. mk_mirror env k req \<noteq> Inr (JStr ''skipped:client-unavailable'')"
    and "e \<in> set (fst (snd (tick s env st)))"
  shows "\<not> isSimulated e"
  using assms(2) pollAddresses_not_simulated [of e env 0 "targetAddresses s" st]
    submitAll_not_simulated [OF assms(1), of e s 0]
  by (auto simp add: tick_def split_beta Let_def split: if_splits option.splits)

lemma raw_echo:
  "snd (mirrorOrder demoFmt rawClient echoingVenue demoOrder) = Inr (JStr ''skipped:client-unavailable'')"
  by code_simp

lemma raw_reject:
  "snd (mirrorOrder demoFmt rawClient rejectingVenue demoOrder) =
     Inl (Error ''Order failed: Request failed with status code 400'')"
  by code_simp

text \<open>
  Claim C10, as the code has it. In a dry run \<open>mirrorOrder\<close> never returns
  \<open>skipped:client-unavailable\<close> and no tick logs through the \<open>Simulated\<close> branch. Live,
  \<open>mirrorOrder\<close> returns that string exactly when the venue's answer to this order carries
  it as the order's id or hash: without \<open>ClobClient\<close>, when the post of the order's payload
  resolves with a body whose \<open>hash\<close> is that string, or whose \<open>hash\<close> is missing or \<open>null\<close>
  and whose \<open>transactionHash\<close> is that string; with \<open>ClobClient\<close>, when the credentials step
  does not throw, \<open>createOrder\<close> builds the order and \<open>postOrder\<close> resolves with a response
  whose \<open>orderId\<close> is that string, or whose \<open>orderId\<close> is missing or \<open>null\<close> and whose \<open>hash\<close>
  is that string. A tick whose submissions never return it logs nothing through the
  \<open>Simulated\<close> branch; every error \<open>mirrorOrder\<close> throws is an \<open>Error\<close> whose message begins
  with \<open>Order failed: \<close>; a submission that returns anything else than that string is logged
  through the \<open>Mirrored\<close> branch, and one that returns it through the \<open>Simulated\<close> branch.
\<close>

theorem simulated_branch_needs_venue_literal:
  "(mk_dryRun mk \<longrightarrow>
      snd (mirrorOrder fmt mk v order) \<noteq> Inr (JStr ''skipped:client-unavailable'') \<and>
      (\<forall>e \<in> set (fst (snd (tick s (withClient fmt mul mk approving venues fetch) st))). \<not> isSimulated e)) \<and>
   (snd (mirrorOrder fmt mk v order) = Inr (JStr ''skipped:client-unavailable'') \<longleftrightarrow>
     \<not> mk_dryRun mk \<and>
     (if \<not> mk_clob mk
      then \<exists>tx. axios_post v (rawPayload order (mk_maxSlippageBps mk / 10000)) = Inr tx \<and>
                (optProp tx ''hash'' = Some (JStr ''skipped:client-unavailable'') \<or>
                 ((optProp tx ''hash'' = None \<or> optProp tx ''hash'' = Some JNull) \<and>
                  optProp tx ''transactionHash'' = Some (JStr ''skipped:client-unavailable'')))
      else snd (ensureCreds v) = None \<and>
           (\<exists>built resp. clob_createOrder v (clobArgs order) = Inr built \<and>
                clob_postOrder v built = Inr resp \<and>
                (optProp resp ''orderId'' = Some (JStr ''skipped:client-unavailable'') \<or>
                 ((optProp resp ''orderId'' = None \<or> optProp resp ''orderId'' = Some JNull) \<and>
                  optProp resp ''hash'' = Some (JStr ''skipped:client-unavailable'')))))) \<and>
   ((\<forall>k req. snd (mirrorOrder fmt mk (venues k) req) \<noteq> Inr (JStr ''skipped:client-unavailable'')) \<longrightarrow>
      (\<forall>e \<in> set (fst (snd (tick s (withClient fmt mul mk approving venues fetch) st))). \<not> isSimulated e)) \<and>
   (\<forall>err. snd (mirrorOrder fmt mk v order) = Inl err \<longrightarrow> (\<exists>m. err = Error (''Order failed: '' @ m))) \<and>
   (mk_mirror env k (mirrorRequest (times env) s f) = Inr tx \<and> tx \<noteq> JStr ''skipped:client-unavailable'' \<longrightarrow>
      take 2 (fst (submitAll s env k ((f, a) # rest))) =
        [Submit a f (mirrorRequest (times env) s f),
         Log (Mirrored (take 6 a) (fill_side f) (mirrorSize (times env) s f) (fill_price f)
                (fill_marketId f) (fill_outcomeId f) (coalesce [Some tx] (JStr ''ok'')))]) \<and>
   (mk_mirror env k (mirrorRequest (times env) s f) = Inr (JStr ''skipped:client-unavailable'') \<longrightarrow>
      take 2 (fst (submitAll s env k ((f, a) # rest))) =
        [Submit a f (mirrorRequest (times env) s f),
         Log (Simulated (take 6 a) (fill_side f) (mirrorSize (times env) s f) (fill_price f))])"
proof -
  let ?env = "withClient fmt mul mk approving venues fetch"
  have dry: "snd (mirrorOrder fmt mk v order) \<noteq> Inr (JStr ''skipped:client-unavailable'') \<and>
      (\<forall>e \<in> set (fst (snd (tick s ?env st))). \<not> isSimulated e)" if d: "mk_dryRun mk"
  proof -
    have "\<forall>k req. mk_mirror ?env k req \<noteq> Inr (JStr ''skipped:client-unavailable'')"
      using d by (simp add: withClient_def mirrorOrder_skipped)
    with tick_not_simulated [of ?env _ s st] d show ?thesis
      by (auto simp add: mirrorOrder_skipped)
  qed
  have never: "\<forall>e \<in> set (fst (snd (tick s ?env st))). \<not> isSimulated e"
    if n: "\<forall>k req. snd (mirrorOrder fmt mk (venues k) req) \<noteq> Inr (JStr ''skipped:client-unavailable'')"
  proof -
    have "\<forall>k req. mk_mirror ?env k req \<noteq> Inr (JStr ''skipped:client-unavailable'')"
      using n by (simp add: withClient_def)
    with tick_not_simulated [of ?env _ s st] show ?thesis by blast
  qed
  have thrown: "\<forall>err. snd (mirrorOrder fmt mk v order) = Inl err \<longrightarrow>
      (\<exists>m. err = Error (''Order failed: '' @ m))"
    using mirrorOrder_throws by blast
  have mirrored: "take 2 (fst (submitAll s env k ((f, a) # rest))) =
        [Submit a f (mirrorRequest (times env) s f),
         Log (Mirrored (take 6 a) (fill_side f) (mirrorSize (times env) s f) (fill_price f)
                (fill_marketId f) (fill_outcomeId f) (coalesce [Some tx] (JStr ''ok'')))]"
    if "mk_mirror env k (mirrorRequest (times env) s f) = Inr tx \<and> tx \<noteq> JStr ''skipped:client-unavailable''"
    using that by (simp add: split_beta Let_def mirrorRequest_def)
  have simulated: "take 2 (fst (submitAll s env k ((f, a) # rest))) =
        [Submit a f (mirrorRequest (times env) s f),
         Log (Simulated (take 6 a) (fill_side f) (mirrorSize (times env) s f) (fill_price f))]"
    if "mk_mirror env k (mirrorRequest (times env) s f) = Inr (JStr ''skipped:client-unavailable'')"
    using that by (simp add: split_beta Let_def mirrorRequest_def)
  from dry never thrown mirrored simulated mirrorOrder_skipped [of fmt mk v order]
  show ?thesis by blast
qed

lemma dry_mirror:
  "mk_mirror dryTick 0 (mirrorRequest (times dryTick) demoSettings (demoFill ''f1'' Buy 10 100)) =
     Inr (JStr ''dry-run:m:o:buy:15@0.5~slip:0.01'')"
  by code_simp

lemma echo_mirror:
  "mk_mirror echoingTick 0 (mirrorRequest (times echoingTick) demoSettings (demoFill ''f1'' Buy 10 100)) =
     Inr (JStr ''skipped:client-unavailable'')"
  by code_simp

lemma demo_clients:
  "mk_dryRun dryClient" "\<not> mk_dryRun rawClient" "\<not> mk_clob rawClient"
  "times dryTick = demoTimes" "times echoingTick = demoTimes"
  by (simp_all add: dryClient_def rawClient_def newPolymarketClient_def demoExecution_def
        dryTick_def echoingTick_def withClient_def)

lemma demo_request:
  "mirrorRequest demoTimes demoSettings (demoFill ''f1'' Buy 10 100) = demoOrder"
  "mirrorSize demoTimes demoSettings (demoFill ''f1'' Buy 10 100) = Num 15"
  by (simp_all add: demoOrder_def mirrorSize_def baseSize_def demoSettings_def demoFill_def)

theorem simulated_branch_needs_venue_literal_witness:
  "mk_dryRun dryClient \<and>
   snd (mirrorOrder demoFmt dryClient echoingVenue demoOrder) \<noteq> Inr (JStr ''skipped:client-unavailable'') \<and>
   filter isSimulated (fst (snd (tick demoSettings dryTick runningService))) = [] \<and>
   snd (mirrorOrder demoFmt rawClient echoingVenue demoOrder) = Inr (JStr ''skipped:client-unavailable'') \<and>
   \<not> mk_dryRun rawClient \<and>
   (\<exists>tx. axios_post echoingVenue (rawPayload demoOrder (mk_maxSlippageBps rawClient / 10000)) = Inr tx \<and>
         (optProp tx ''hash'' = Some (JStr ''skipped:client-unavailable'') \<or>
          ((optProp tx ''hash'' = None \<or> optProp tx ''hash'' = Some JNull) \<and>
           optProp tx ''transactionHash'' = Some (JStr ''skipped:client-unavailable'')))) \<and>
   snd (mirrorOrder demoFmt rawClient rejectingVenue demoOrder) =
     Inl (Error ''Order failed: Request failed with status code 400'') \<and>
   (\<exists>m. Error ''Order failed: Request failed with status code 400'' = Error (''Order failed: '' @ m)) \<and>
   take 2 (fst (submitAll demoSettings dryTick 0 [(demoFill ''f1'' Buy 10 100, ''0xA'')])) =
     [Submit ''0xA'' (demoFill ''f1'' Buy 10 100) demoOrder,
      Log (Mirrored ''0xA'' Buy (Num 15) (Num (1 / 2)) ''m'' ''o''
             (JStr ''dry-run:m:o:buy:15@0.5~slip:0.01''))] \<and>
   take 2 (fst (submitAll demoSettings echoingTick 0 [(demoFill ''f1'' Buy 10 100, ''0xA'')])) =
     [Submit ''0xA'' (demoFill ''f1'' Buy 10 100) demoOrder,
      Log (Simulated ''0xA'' Buy (Num 15) (Num (1 / 2)))]"
proof -
  note dry = demo_clients(1)
  have never: "\<forall>k req. snd (mirrorOrder demoFmt dryClient (echoingVenues k) req)
                 \<noteq> Inr (JStr ''skipped:client-unavailable'')"
    using simulated_branch_needs_venue_literal [of dryClient demoFmt] dry by blast
  from simulated_branch_needs_venue_literal
         [of dryClient demoFmt echoingVenue demoOrder demoSettings demoTimes quietVenue echoingVenues
             oneFill runningService] dry never
  have a: "snd (mirrorOrder demoFmt dryClient echoingVenue demoOrder) \<noteq> Inr (JStr ''skipped:client-unavailable'') \<and>
     (\<forall>e \<in> set (fst (snd (tick demoSettings dryTick runningService))). \<not> isSimulated e)"
    unfolding dryTick_def by blast
  from simulated_branch_needs_venue_literal [of rawClient demoFmt echoingVenue demoOrder]
       raw_echo demo_clients(3)
  have b: "\<not> mk_dryRun rawClient \<and>
     (\<exists>tx. axios_post echoingVenue (rawPayload demoOrder (mk_maxSlippageBps rawClient / 10000)) = Inr tx \<and>
         (optProp tx ''hash'' = Some (JStr ''skipped:client-unavailable'') \<or>
          ((optProp tx ''hash'' = None \<or> optProp tx ''hash'' = Some JNull) \<and>
           optProp tx ''transactionHash'' = Some (JStr ''skipped:client-unavailable''))))"
    by simp
  from simulated_branch_needs_venue_literal [of rawClient demoFmt rejectingVenue demoOrder] raw_reject
  have c: "\<exists>m. Error ''Order failed: Request failed with status code 400'' = Error (''Order failed: '' @ m)"
    by blast
  from a have d: "filter isSimulated (fst (snd (tick demoSettings dryTick runningService))) = []"
    by (simp add: filter_empty_conv)
  have ne: "JStr ''dry-run:m:o:buy:15@0.5~slip:0.01'' \<noteq> JStr ''skipped:client-unavailable''"
    by simp
  from simulated_branch_needs_venue_literal
         [of dryClient demoFmt echoingVenue demoOrder demoSettings demoTimes quietVenue echoingVenues
             oneFill runningService dryTick 0 "demoFill ''f1'' Buy 10 100"
             "JStr ''dry-run:m:o:buy:15@0.5~slip:0.01''" "''0xA''" "[]"] dry_mirror ne
  have "take 2 (fst (submitAll demoSettings dryTick 0 [(demoFill ''f1'' Buy 10 100, ''0xA'')])) =
     [Submit ''0xA'' (demoFill ''f1'' Buy 10 100)
        (mirrorRequest (times dryTick) demoSettings (demoFill ''f1'' Buy 10 100)),
      Log (Mirrored (take 6 ''0xA'') (fill_side (demoFill ''f1'' Buy 10 100))
             (mirrorSize (times dryTick) demoSettings (demoFill ''f1'' Buy 10 100))
             (fill_price (demoFill ''f1'' Buy 10 100))
             (fill_marketId (demoFill ''f1'' Buy 10 100)) (fill_outcomeId (demoFill ''f1'' Buy 10 100))
             (coalesce [Some (JStr ''dry-run:m:o:buy:15@0.5~slip:0.01'')] (JStr ''ok'')))]"
    by blast
  then have e: "take 2 (fst (submitAll demoSettings dryTick 0 [(demoFill ''f1'' Buy 10 100, ''0xA'')])) =
     [Submit ''0xA'' (demoFill ''f1'' Buy 10 100) demoOrder,
      Log (Mirrored ''0xA'' Buy (Num 15) (Num (1 / 2)) ''m'' ''o''
             (JStr ''dry-run:m:o:buy:15@0.5~slip:0.01''))]"
    by (simp add: demo_clients demo_request) (simp add: demoFill_def)
  from simulated_branch_needs_venue_literal
         [of dryClient demoFmt echoingVenue demoOrder demoSettings demoTimes quietVenue echoingVenues
             oneFill runningService echoingTick 0 "demoFill ''f1'' Buy 10 100" _ "''0xA''" "[]"]
       echo_mirror
  have "take 2 (fst (submitAll demoSettings echoingTick 0 [(demoFill ''f1'' Buy 10 100, ''0xA'')])) =
     [Submit ''0xA'' (demoFill ''f1'' Buy 10 100)
        (mirrorRequest (times echoingTick) demoSettings (demoFill ''f1'' Buy 10 100)),
      Log (Simulated (take 6 ''0xA'') (fill_side (demoFill ''f1'' Buy 10 100))
             (mirrorSize (times echoingTick) demoSettings (demoFill ''f1'' Buy 10 100))
             (fill_price (demoFill ''f1'' Buy 10 100)))]"
    by blast
  then have f: "take 2 (fst (submitAll demoSettings echoingTick 0 [(demoFill ''f1'' Buy 10 100, ''0xA'')])) =
     [Submit ''0xA'' (demoFill ''f1'' Buy 10 100) demoOrder,
      Log (Simulated ''0xA'' Buy (Num 15) (Num (1 / 2)))]"
    by (simp add: demo_clients demo_request) (simp add: demoFill_def)
  from dry a b c d e f raw_echo raw_reject show ?thesis by blast
qed

text \<open>
  Claim C10 as stated fails: a live client without \<open>ClobClient\<close> whose venue answers the
  post with \<open>{hash: 'skipped:client-unavailable'}\<close> returns that string, and the tick
  logs the fill through the \<open>Simulated\<close> branch.
\<close>

theorem venue_literal_reaches_simulated_branch:
  "snd (mirrorOrder demoFmt rawClient echoingVenue demoOrder) = Inr (JStr ''skipped:client-unavailable'') \<and>
   Log (Simulated ''0xA'' Buy (Num 15) (Num (1 / 2)))
     \<in> set (fst (snd (tick demoSettings echoingTick runningService)))"
  by code_simp

subsection \<open>Configuration\<close>

lemma setters_clamp:
  "0 \<le> hp_copyFactor (setCopyFactor factor t) \<and> hp_copyFactor (setCopyFactor factor t) \<le> 5 \<and>
   10 \<le> hp_maxSlippageBps (setMaxSlippage slippageBps t) \<and>
   hp_maxSlippageBps (setMaxSlippage slippageBps t) \<le> 1000"
  by (simp add: setCopyFactor_def setMaxSlippage_def)

text \<open>
  Claim C8, evaluated where it fails. The \<open>copytrader:start\<close> handler called with a copy
  factor of 7 and a slippage of 5000 basis points builds the service and the client with
  these very values: the fill of size 10 is mirrored with size 70. The setters of
  \<open>HighPerformanceCopyTrader\<close> turn the same values into 5 and 1000.
\<close>

theorem ipc_start_passes_settings_unclamped:
  "\<not> isl unclampedStart \<and>
   copyFactor (snd (snd (projr unclampedStart))) = Num 7 \<and>
   mk_maxSlippageBps (fst (snd (projr unclampedStart))) = 5000 \<and>
   order_size (mirrorRequest demoTimes (snd (snd (projr unclampedStart))) (demoFill ''f1'' Buy 10 100))
     = Num 70 \<and>
   hp_copyFactor (setCopyFactor 7 newHighPerformanceCopyTrader) = 5 \<and>
   hp_maxSlippageBps (setMaxSlippage 5000 newHighPerformanceCopyTrader) = 1000"
  by (simp add: unclampedStart_def copytraderStart_def demoSettings_def demoFill_def
        mirrorRequest_def mirrorSize_def baseSize_def newPolymarketClient_def setCopyFactor_def
        setMaxSlippage_def newHighPerformanceCopyTrader_def)

end
